theory Spec2Isabelle
  imports Main "HOL-Library.Word"
begin

section \<open>JavaScript strings and numbers\<close>

text \<open>
  Strings are \<open>char list\<close>. The strings that matter here (addresses, hashes, decimal
  amounts, log and error messages) are ASCII, so one \<open>char\<close> is one UTF-16 code unit
  of the source.
\<close>

definition lowerChar :: "char \<Rightarrow> char" where
  "lowerChar c =
     (case map_of (zip ''ABCDEFGHIJKLMNOPQRSTUVWXYZ'' ''abcdefghijklmnopqrstuvwxyz'') c of
        Some d \<Rightarrow> d
      | None \<Rightarrow> c)"

definition toLowerCase :: "string \<Rightarrow> string" where
  "toLowerCase s = map lowerChar s"

fun startsWith :: "string \<Rightarrow> string \<Rightarrow> bool" where
  "startsWith s [] = True"
| "startsWith [] (c # t) = False"
| "startsWith (d # s) (c # t) = (d = c \<and> startsWith s t)"

text \<open>\<open>String.prototype.includes\<close>: \<open>t\<close> occurs in \<open>s\<close> as a contiguous substring.\<close>

fun String_includes :: "string \<Rightarrow> string \<Rightarrow> bool" where
  "String_includes [] t = (t = [])"
| "String_includes (c # s) t = (startsWith (c # s) t \<or> String_includes s t)"

text \<open>\<open>Array.prototype.join\<close> with a separator.\<close>

fun join :: "string \<Rightarrow> string list \<Rightarrow> string" where
  "join sep [] = []"
| "join sep [x] = x"
| "join sep (x # y # ys) = x @ sep @ join sep (y # ys)"

definition digitChar :: "nat \<Rightarrow> char" where
  "digitChar d = ''0123456789'' ! d"

definition isDigit :: "char \<Rightarrow> bool" where
  "isDigit c = (c \<in> set ''0123456789'')"

definition digitVal :: "char \<Rightarrow> nat" where
  "digitVal c =
     (case map_of (zip ''0123456789'' [0, 1, 2, 3, 4, 5, 6, 7, 8, 9]) c of
        Some d \<Rightarrow> d
      | None \<Rightarrow> 0)"

text \<open>\<open>bigint.toString()\<close> of a non-negative value: its decimal digits, no leading zero.\<close>

fun natToString :: "nat \<Rightarrow> string" where
  "natToString n =
     (if n < 10 then [digitChar n] else natToString (n div 10) @ [digitChar (n mod 10)])"

declare natToString.simps [simp del]

text \<open>
  \<open>toString()\<close> of a \<open>bigint\<close>, and of a \<open>number\<close> that holds an integer below
  \<open>10^21\<close> in magnitude (a block count, a unix time): decimal digits with a minus sign
  for a negative value.
\<close>

definition intToString :: "int \<Rightarrow> string" where
  "intToString i = (if i < 0 then CHR ''-'' # natToString (nat (- i)) else natToString (nat i))"

text \<open>
  \<open>Number.isSafeInteger\<close> on an integer, and \<open>Number.prototype.toString\<close> of an
  integer-valued \<open>number\<close>. On a safe integer the rendering is the decimal digits.
  Beyond the safe range a \<open>number\<close> need not hold the integer at all, and what the
  source renders there is not the exact digits (the shortest digits that read back as
  the same number, and exponent notation from \<open>10^21\<close>): the definition is meant on
  safe integers only, and what is proved of a rendering bounds its number to them.
\<close>

definition MAX_SAFE_INTEGER :: int where
  "MAX_SAFE_INTEGER = 9007199254740991"

definition isSafeInteger :: "int \<Rightarrow> bool" where
  "isSafeInteger i = (- MAX_SAFE_INTEGER \<le> i \<and> i \<le> MAX_SAFE_INTEGER)"

definition Number_toString :: "int \<Rightarrow> string" where
  "Number_toString i = intToString i"

text \<open>The regular expression \<open>/^\d+$/\<close> of the payment schema.\<close>

definition isDecimalString :: "string \<Rightarrow> bool" where
  "isDecimalString s = (s \<noteq> [] \<and> list_all isDigit s)"

definition digitsValue :: "string \<Rightarrow> nat" where
  "digitsValue s = foldl (\<lambda>acc c. 10 * acc + digitVal c) 0 s"

text \<open>
  A thrown JavaScript value. \<open>JsError name message\<close> is an error object with no
  \<open>status\<close> property (\<open>new Error(m)\<close>, a \<open>TypeError\<close>, a \<open>SyntaxError\<close>).
  \<open>StatusError status code message\<close> is an error object that carries a \<open>status\<close>
  and possibly a \<open>code\<close>. \<open>ZodError issues\<close> is the error \<open>s402ProofSchema.parse\<close>
  throws, with the paths of the fields that failed; its message is the JSON rendering
  of the issues, which contains none of the phrases the middleware searches for.
\<close>

datatype js_error =
    JsError (err_name: string) (err_message: string)
  | StatusError int "string option" string
  | ZodError "string list"

definition new_Error :: "string \<Rightarrow> js_error" where
  "new_Error m = JsError ''Error'' m"

text \<open>
  \<open>BigInt(s)\<close> on the strings the payment schema admits (\<open>/^\d+$/\<close>): the number the
  digits write, leading zeros allowed. Every other string is modelled as the
  \<open>SyntaxError\<close> that \<open>BigInt\<close> raises on a string that is not an integer literal.
  (JavaScript also reads the empty string, blanks around the digits, a sign before
  them and the \<open>0x\<close>, \<open>0o\<close> and \<open>0b\<close> forms; the schema admits none of these, and
  in the middlewares every string \<open>BigInt\<close> is applied to has passed the schema.)
\<close>

definition BigInt :: "string \<Rightarrow> js_error + int" where
  "BigInt s =
     (if isDecimalString s then Inr (int (digitsValue s))
      else Inl (JsError ''SyntaxError'' (''Cannot convert '' @ s @ '' to a BigInt'')))"

section \<open>Data model (shared/schema.ts)\<close>

type_synonym Address = string
type_synonym Hex32 = string
type_synonym TxHash = string

text \<open>
  \<open>PaymentData\<close>. The field \<open>value\<close> of the source (a decimal string in token
  units) is \<open>amount\<close> here. \<open>deadline\<close> is a JavaScript number holding unix seconds.
\<close>

record PaymentData =
  owner :: Address
  amount :: string
  deadline :: int
  recipient :: Address
  nonce :: Hex32

record Signature =
  sig_v :: int
  sig_r :: Hex32
  sig_s :: Hex32

record S402Proof =
  payment :: PaymentData
  permitSig :: "Signature option"
  authSig :: Signature
  txHash :: "TxHash option"

record EIP712Domain =
  domain_name :: string
  domain_version :: string
  domain_chainId :: int
  verifyingContract :: Address

definition PAYMENT_AUTHORIZATION_TYPES :: "(string \<times> string) list" where
  "PAYMENT_AUTHORIZATION_TYPES =
     [(''owner'', ''address''), (''spender'', ''address''), (''value'', ''uint256''),
      (''deadline'', ''uint256''), (''recipient'', ''address''), (''nonce'', ''bytes32'')]"

text \<open>The typed-data value that is signed: the payment with the \<open>spender\<close> field added.\<close>

record PaymentAuthorization =
  pa_owner :: Address
  pa_spender :: Address
  pa_value :: string
  pa_deadline :: int
  pa_recipient :: Address
  pa_nonce :: Hex32

definition isHexDigit :: "char \<Rightarrow> bool" where
  "isHexDigit c = (c \<in> set ''0123456789abcdefABCDEF'')"

text \<open>
  \<open>/^0x[0-9a-fA-F]{n}$/i\<close>: with the \<open>i\<close> flag the prefix may be \<open>0x\<close> or \<open>0X\<close>.
\<close>

definition matchesHex :: "nat \<Rightarrow> string \<Rightarrow> bool" where
  "matchesHex n s =
     (case s of
        c0 # c1 # rest \<Rightarrow>
          c0 = CHR ''0'' \<and> (c1 = CHR ''x'' \<or> c1 = CHR ''X'') \<and>
          length rest = n \<and> list_all isHexDigit rest
      | _ \<Rightarrow> False)"

definition addressSchema :: "string \<Rightarrow> bool" where
  "addressSchema s = matchesHex 40 s"

definition hex32Schema :: "string \<Rightarrow> bool" where
  "hex32Schema s = matchesHex 64 s"

definition txHashSchema :: "string \<Rightarrow> bool" where
  "txHashSchema s = matchesHex 64 s"

definition signatureSchema :: "Signature \<Rightarrow> bool" where
  "signatureSchema sg = (27 \<le> sig_v sg \<and> sig_v sg \<le> 28 \<and> hex32Schema (sig_r sg) \<and> hex32Schema (sig_s sg))"

definition paymentDataSchema :: "PaymentData \<Rightarrow> bool" where
  "paymentDataSchema p =
     (addressSchema (owner p) \<and> isDecimalString (amount p) \<and> 0 < deadline p \<and>
      addressSchema (recipient p) \<and> hex32Schema (nonce p))"

definition s402ProofSchema :: "S402Proof \<Rightarrow> bool" where
  "s402ProofSchema pr =
     (paymentDataSchema (payment pr) \<and>
      (case permitSig pr of None \<Rightarrow> True | Some sg \<Rightarrow> signatureSchema sg) \<and>
      signatureSchema (authSig pr) \<and>
      (case txHash pr of None \<Rightarrow> True | Some h \<Rightarrow> txHashSchema h))"

text \<open>
  \<open>s402ProofSchema.parse\<close>: the proof itself when it fits the schema, a \<open>ZodError\<close>
  otherwise. A request body of another JSON shape is not a value of \<open>S402Proof\<close>.
\<close>

definition s402ProofSchema_parse :: "S402Proof \<Rightarrow> js_error + S402Proof" where
  "s402ProofSchema_parse pr =
     (if s402ProofSchema pr then Inr pr
      else Inl (ZodError
        ((if paymentDataSchema (payment pr) then [] else [''payment'']) @
         (case permitSig pr of None \<Rightarrow> [] | Some sg \<Rightarrow> if signatureSchema sg then [] else [''permitSig'']) @
         (if signatureSchema (authSig pr) then [] else [''authSig'']) @
         (case txHash pr of None \<Rightarrow> [] | Some h \<Rightarrow> if txHashSchema h then [] else [''txHash'']))))"

section \<open>Configuration (config/env.ts, config/constants.ts)\<close>

definition S402_FACILITATOR :: Address where
  "S402_FACILITATOR = ''0x605c5c8d83152bd98ecAc9B77a845349DA3c48a3''"

definition USD1_TOKEN :: Address where
  "USD1_TOKEN = ''0x8d0D000Ee44948FC98c9B98A4FA4921476f08B0d''"

text \<open>
  The loaded configuration. \<open>BASE_PRICE_USD1\<close> and the entries of the price table are
  the wei strings \<open>usd1ToWei\<close> wrote with \<open>BigInt(...).toString()\<close>; they are held
  here as the integers \<open>BigInt\<close> reads back from them, the table as the map of its
  own keys. \<open>isDev\<close> is
  \<open>process.env.NODE_ENV === "development"\<close>, which the error handler reads.
\<close>

record EnvConfig =
  CHAIN_ID :: int
  RECIPIENT :: Address
  BASE_PRICE_USD1 :: int
  priceTable :: "string \<rightharpoonup> int"
  MINIMUM_CONFIRMATIONS :: int
  isDev :: bool

definition getChainId :: "EnvConfig \<Rightarrow> int" where
  "getChainId cfg = CHAIN_ID cfg"

definition getMinimumConfirmations :: "EnvConfig \<Rightarrow> int" where
  "getMinimumConfirmations cfg = MINIMUM_CONFIRMATIONS cfg"

section \<open>Route pricing (services/pricingService.ts)\<close>

text \<open>
  The price table is the object \<open>JSON.parse\<close> returns, so \<open>priceTable[routeKey]\<close>
  for a key the table does not hold falls through to \<open>Object.prototype\<close>. For the
  property names of \<open>Object.prototype\<close> the lookup gives a function (for
  \<open>__proto__\<close> the prototype object), which is truthy, and \<open>BigInt\<close> of it throws
  a \<open>SyntaxError\<close> that quotes the value's string form.
\<close>

definition Object_prototype_keys :: "string list" where
  "Object_prototype_keys =
     [''constructor'', ''__defineGetter__'', ''__defineSetter__'', ''hasOwnProperty'',
      ''__lookupGetter__'', ''__lookupSetter__'', ''isPrototypeOf'', ''propertyIsEnumerable'',
      ''toString'', ''valueOf'', ''__proto__'', ''toLocaleString'']"

definition inheritedText :: "string \<Rightarrow> string" where
  "inheritedText k =
     (if k = ''__proto__'' then ''[object Object]''
      else if k = ''constructor'' then ''function Object() { [native code] }''
      else ''function '' @ k @ ''() { [native code] }'')"

definition getPriceForRoute :: "EnvConfig \<Rightarrow> string \<Rightarrow> js_error + int" where
  "getPriceForRoute cfg routeKey =
     (case priceTable cfg routeKey of
        Some price \<Rightarrow> Inr price
      | None \<Rightarrow>
          if routeKey \<in> set Object_prototype_keys
          then Inl (JsError ''SyntaxError''
                 (''Cannot convert '' @ inheritedText routeKey @ '' to a BigInt''))
          else Inr (BASE_PRICE_USD1 cfg))"

definition getRecipientForRoute :: "EnvConfig \<Rightarrow> string \<Rightarrow> Address" where
  "getRecipientForRoute cfg routeKey = RECIPIENT cfg"

section \<open>The chain client (libs/ethers.ts) and observable effects\<close>

record Log =
  topics :: "string list"
  log_data :: string

text \<open>
  A transaction receipt as \<open>provider.getTransactionReceipt\<close> returns it. \<open>status\<close> and
  \<open>to\<close> (here \<open>receipt_to\<close>) may be \<open>null\<close>.
\<close>

record TransactionReceipt =
  blockNumber :: int
  status :: "int option"
  receipt_to :: "Address option"
  logs :: "Log list"

record TransactionResponse =
  tx_data :: string
  tx_value :: nat
  tx_from :: "Address option"

text \<open>
  What \<open>contract.interface.parseLog\<close> gives for a log: the event's name and its
  arguments, each of which may be absent from the event the ABI describes.
\<close>

record LogDescription =
  ev_name :: string
  ev_from :: "Address option"
  ev_to :: "Address option"
  ev_nonce :: "Hex32 option"
  ev_value :: "nat option"
  ev_platformFee :: "nat option"

text \<open>The payment struct decoded from call data (\<open>uint256\<close> fields are \<open>bigint\<close>s).\<close>

record DecodedPayment =
  d_owner :: "Address option"
  d_value :: "nat option"
  d_deadline :: "nat option"
  d_recipient :: "Address option"
  d_nonce :: "Hex32 option"

text \<open>
  What \<open>contract.interface.parseTransaction\<close> gives: the function's name and
  \<open>args?.payment ?? args?.[0]\<close>.
\<close>

record TransactionDescription =
  fn_name :: string
  fn_payment :: "DecodedPayment option"

text \<open>
  The chain as one verification sees it. Every call of the provider may fail
  (\<open>Inl\<close>: the promise it returns rejects) or return \<open>null\<close> (\<open>Inr None\<close>); the
  two ABI decoders may throw or return \<open>null\<close> as well. The S402Facilitator ABI is a
  parameter through them.
\<close>

record ChainClient =
  getTransactionReceipt :: "TxHash \<Rightarrow> js_error + TransactionReceipt option"
  getBlockNumber :: "js_error + int"
  getTransaction :: "TxHash \<Rightarrow> js_error + TransactionResponse option"
  parseLog :: "Log \<Rightarrow> js_error + LogDescription option"
  parseTransaction :: "string \<Rightarrow> nat \<Rightarrow> js_error + TransactionDescription option"

datatype ProviderCall = GetTransactionReceipt TxHash | GetBlockNumber | GetTransaction TxHash

datatype LogLevel = LInfo | LWarn | LError

text \<open>
  What a run does besides returning: the provider calls it makes and the entries the
  settlement verifier, the validators and the middlewares write to the logger at level
  info, warn or error (the level and the message; the structured fields, the
  \<open>debug\<close> entries and the emoji that open some messages are left out).
\<close>

datatype Effect = Call ProviderCall | Logged LogLevel string

definition emit :: "Effect list \<Rightarrow> Effect list \<times> 'a \<Rightarrow> Effect list \<times> 'a" where
  "emit es r = (es @ fst r, snd r)"

text \<open>
  An \<open>async\<close> function runs in its caller's turn up to its first \<open>await\<close>, and the
  rest runs when the awaited promise settles. In \<open>verifyTransactionSettlement\<close> the
  first \<open>await\<close> is on \<open>provider.getTransactionReceipt(txHash)\<close>: invoking it is the
  first effect of every run, and everything after it waits for the provider's answer.
\<close>

definition beforeFirstAwait :: "Effect list \<Rightarrow> Effect list" where
  "beforeFirstAwait es = take 1 es"

definition afterFirstAwait :: "Effect list \<Rightarrow> Effect list" where
  "afterFirstAwait es = drop 1 es"

definition providerCalls :: "Effect list \<Rightarrow> ProviderCall list" where
  "providerCalls es = concat (map (\<lambda>e. case e of Call c \<Rightarrow> [c] | Logged l m \<Rightarrow> []) es)"

section \<open>Settlement verification (services/blockchainService.ts)\<close>

record SettlementResult =
  verified :: bool
  confirmations :: int
  error :: "string option"

definition failed :: "int \<Rightarrow> string \<Rightarrow> SettlementResult" where
  "failed c msg = \<lparr>verified = False, confirmations = c, error = Some msg\<rparr>"

definition TypeError :: js_error where
  "TypeError = JsError ''TypeError'' ''Cannot read properties of undefined''"

text \<open>
  The body of the \<open>if (parsed?.name === "PaymentSettled")\<close> block for one parsed log:
  whether all four comparisons hold. Reading \<open>toLowerCase\<close> or \<open>toString\<close> of an
  absent argument throws, and so does \<open>BigInt\<close> of a string that is no integer.
\<close>

definition eventMatches :: "PaymentData \<Rightarrow> LogDescription \<Rightarrow> js_error + bool" where
  "eventMatches pay parsed =
     (case ev_from parsed of
        None \<Rightarrow> Inl TypeError
      | Some f \<Rightarrow>
     (case ev_to parsed of
        None \<Rightarrow> Inl TypeError
      | Some t \<Rightarrow>
     (case ev_value parsed of
        None \<Rightarrow> Inl TypeError
      | Some v \<Rightarrow>
     (case BigInt (amount pay) of
        Inl e \<Rightarrow> Inl e
      | Inr expectedValue \<Rightarrow>
          (let fromMatches = (toLowerCase f = toLowerCase (owner pay));
               toMatches = (toLowerCase t = toLowerCase (recipient pay));
               nonceMatches = (ev_nonce parsed = Some (nonce pay));
               platformFee = (case ev_platformFee parsed of None \<Rightarrow> 0 | Some fee \<Rightarrow> fee);
               totalSettled = v + platformFee;
               valueMatches = (int v = expectedValue \<or> int totalSettled = expectedValue)
           in Inr (fromMatches \<and> toMatches \<and> nonceMatches \<and> valueMatches))))))"

text \<open>
  One iteration of the loop over \<open>receipt.logs\<close>: \<open>True\<close> when the log sets
  \<open>matchedEvent\<close>. Anything thrown inside the iteration is swallowed by its
  \<open>try/catch\<close>.
\<close>

definition logMatches :: "ChainClient \<Rightarrow> PaymentData \<Rightarrow> Log \<Rightarrow> bool" where
  "logMatches chain pay lg =
     (case parseLog chain lg of
        Inl e \<Rightarrow> False
      | Inr None \<Rightarrow> False
      | Inr (Some parsed) \<Rightarrow>
          if ev_name parsed = ''PaymentSettled''
          then (case eventMatches pay parsed of Inl e \<Rightarrow> False | Inr b \<Rightarrow> b)
          else False)"

text \<open>The loop: it stops (\<open>break\<close>) at the first log that matches.\<close>

fun scanLogs :: "ChainClient \<Rightarrow> PaymentData \<Rightarrow> Log list \<Rightarrow> bool" where
  "scanLogs chain pay [] = False"
| "scanLogs chain pay (lg # rest) =
     (if logMatches chain pay lg then True else scanLogs chain pay rest)"

text \<open>
  The six comparisons of \<open>calldataMatches\<close>. The decoded value and deadline are
  \<open>bigint\<close>s, rendered by \<open>bigint.toString()\<close>; the payment's deadline is a
  \<open>number\<close>, rendered by \<open>Number.prototype.toString\<close>.
\<close>

definition calldataMatches ::
  "PaymentData \<Rightarrow> DecodedPayment \<Rightarrow> TransactionResponse \<Rightarrow> bool list" where
  "calldataMatches pay txPayment tx =
     [map_option toLowerCase (d_owner txPayment) = Some (toLowerCase (owner pay)),
      map_option toLowerCase (d_recipient txPayment) = Some (toLowerCase (recipient pay)),
      map_option natToString (d_value txPayment) = Some (amount pay),
      map_option natToString (d_deadline txPayment) = Some (Number_toString (deadline pay)),
      d_nonce txPayment = Some (nonce pay),
      map_option toLowerCase (tx_from tx) = Some (toLowerCase (owner pay))]"

text \<open>
  The fallback: from \<open>logger.warn("No PaymentSettled event found, verifying via
  calldata")\<close> to the end of the \<open>try\<close> block.
\<close>

definition verifyViaCalldata ::
  "ChainClient \<Rightarrow> TxHash \<Rightarrow> PaymentData \<Rightarrow> int \<Rightarrow> Effect list \<times> (js_error + SettlementResult)" where
  "verifyViaCalldata chain h pay c =
     emit [Logged LWarn ''No PaymentSettled event found, verifying via calldata'',
           Call (GetTransaction h)]
     (case getTransaction chain h of
        Inl e \<Rightarrow> ([], Inl e)
      | Inr None \<Rightarrow>
          ([Logged LError ''Unable to fetch transaction data for settlement verification''],
           Inr (failed c ''Transaction data unavailable''))
      | Inr (Some tx) \<Rightarrow>
     (case parseTransaction chain (tx_data tx) (tx_value tx) of
        Inl e \<Rightarrow>
          ([Logged LError ''Failed to parse transaction calldata''],
           Inr (failed c ''Unable to parse transaction calldata''))
      | Inr None \<Rightarrow>
          ([Logged LWarn ''Transaction did not call a settlement function''],
           Inr (failed c ''Unexpected function call''))
      | Inr (Some parsedTx) \<Rightarrow>
          if fn_name parsedTx \<notin> set [''settlePayment'', ''settlePaymentWithPermit'']
          then ([Logged LWarn ''Transaction did not call a settlement function''],
                Inr (failed c ''Unexpected function call''))
          else
     (case fn_payment parsedTx of
        None \<Rightarrow>
          ([Logged LError ''Parsed transaction missing payment args''],
           Inr (failed c ''Missing payment arguments''))
      | Some txPayment \<Rightarrow>
          if \<not> list_all id (calldataMatches pay txPayment tx)
          then ([Logged LWarn ''Transaction calldata does not match expected payment''],
                Inr (failed c ''Payment parameters mismatch''))
          else ([Logged LInfo ''Transaction verified successfully via calldata inspection''],
                Inr \<lparr>verified = True, confirmations = c, error = None\<rparr>))))"

text \<open>The \<open>try\<close> block of \<open>verifyTransactionSettlement\<close>.\<close>

definition verifyTransactionSettlement_try ::
  "EnvConfig \<Rightarrow> ChainClient \<Rightarrow> TxHash \<Rightarrow> PaymentData \<Rightarrow> Effect list \<times> (js_error + SettlementResult)" where
  "verifyTransactionSettlement_try cfg chain h pay =
     (let minimumConfirmations = getMinimumConfirmations cfg in
      emit [Call (GetTransactionReceipt h)]
      (case getTransactionReceipt chain h of
         Inl e \<Rightarrow> ([], Inl e)
       | Inr None \<Rightarrow>
           ([Logged LWarn ''Transaction not found on-chain''],
            Inr (failed 0 ''Transaction not found''))
       | Inr (Some receipt) \<Rightarrow>
      emit [Call GetBlockNumber]
      (case getBlockNumber chain of
         Inl e \<Rightarrow> ([], Inl e)
       | Inr currentBlock \<Rightarrow>
      (let c = currentBlock - blockNumber receipt + 1 in
       (if c < minimumConfirmations
        then ([Logged LWarn ''Insufficient confirmations''],
              Inr (failed c (''Insufficient confirmations: '' @ intToString c @ ''/'' @
                             intToString minimumConfirmations)))
        else if status receipt \<noteq> Some 1
        then ([Logged LWarn ''Transaction failed on-chain''], Inr (failed c ''Transaction failed''))
        else if map_option toLowerCase (receipt_to receipt) \<noteq> Some (toLowerCase S402_FACILITATOR)
        then ([Logged LWarn ''Transaction did not call S402Facilitator contract''],
              Inr (failed c ''Wrong contract called''))
        else if scanLogs chain pay (logs receipt)
        then ([Logged LInfo ''Transaction verified successfully via PaymentSettled event''],
              Inr \<lparr>verified = True, confirmations = c, error = None\<rparr>)
        else verifyViaCalldata chain h pay c)))))"

text \<open>
  \<open>verifyTransactionSettlement\<close>: the \<open>try\<close> block under its \<open>catch\<close>. The
  result is a sum so that a rejected promise would be a value \<open>Inl\<close>.
\<close>

definition verifyTransactionSettlement ::
  "EnvConfig \<Rightarrow> ChainClient \<Rightarrow> TxHash \<Rightarrow> PaymentData \<Rightarrow> Effect list \<times> (js_error + SettlementResult)" where
  "verifyTransactionSettlement cfg chain h pay =
     (case snd (verifyTransactionSettlement_try cfg chain h pay) of
        Inr r \<Rightarrow> verifyTransactionSettlement_try cfg chain h pay
      | Inl e \<Rightarrow>
          (fst (verifyTransactionSettlement_try cfg chain h pay) @
             [Logged LError ''Failed to verify transaction''],
           Inr (failed 0 ''Verification failed'')))"

section \<open>Signature verification and the challenge (services/s402Service.ts)\<close>

text \<open>
  The two functions of the ethers library the verifier calls. Each may throw.
  \<open>Signature_from\<close> is \<open>ethers.Signature.from\<close>; \<open>verifyTypedData\<close> recovers the
  signer's address from the EIP-712 digest of a typed-data value under a domain.
\<close>

record Ethers =
  Signature_from :: "Signature \<Rightarrow> js_error + Signature"
  verifyTypedData ::
    "EIP712Domain \<Rightarrow> (string \<times> string) list \<Rightarrow> PaymentAuthorization \<Rightarrow> Signature \<Rightarrow> js_error + Address"

text \<open>
  What a request runs against: the configuration, the clock (\<open>Date.now()\<close>, in
  milliseconds), the bytes \<open>crypto.randomBytes\<close> will draw, the ethers library and the
  chain.
\<close>

record Env =
  env_config :: EnvConfig
  Date_now :: int
  env_entropy :: "nat \<Rightarrow> 8 word"
  env_ethers :: Ethers
  env_chain :: ChainClient

definition buildEIP712Domain :: "EnvConfig \<Rightarrow> EIP712Domain" where
  "buildEIP712Domain cfg =
     \<lparr>domain_name = ''S402Facilitator'', domain_version = ''1'',
      domain_chainId = getChainId cfg, verifyingContract = S402_FACILITATOR\<rparr>"

definition typedValue :: "PaymentData \<Rightarrow> PaymentAuthorization" where
  "typedValue pay =
     \<lparr>pa_owner = owner pay, pa_spender = S402_FACILITATOR, pa_value = amount pay,
      pa_deadline = deadline pay, pa_recipient = recipient pay, pa_nonce = nonce pay\<rparr>"

text \<open>
  \<open>verifyEIP712Signature\<close>: the \<open>try\<close> block and its \<open>catch\<close>, which turns
  anything thrown into \<open>false\<close>. \<open>typedValue\<close> is the object \<open>value\<close> the source
  builds. The function's own log entries are left out.
\<close>

definition verifyEIP712Signature ::
  "Ethers \<Rightarrow> PaymentData \<Rightarrow> Signature \<Rightarrow> EIP712Domain \<Rightarrow> bool" where
  "verifyEIP712Signature lib pay sg dm =
     (case Signature_from lib sg of
        Inl e \<Rightarrow> False
      | Inr signature \<Rightarrow>
          (case verifyTypedData lib dm PAYMENT_AUTHORIZATION_TYPES (typedValue pay) signature of
             Inl e \<Rightarrow> False
           | Inr recoveredAddress \<Rightarrow> toLowerCase recoveredAddress = toLowerCase (owner pay)))"

definition hexChar :: "nat \<Rightarrow> char" where
  "hexChar d = ''0123456789abcdef'' ! d"

definition byteToHex :: "8 word \<Rightarrow> string" where
  "byteToHex b = [hexChar (unat b div 16), hexChar (unat b mod 16)]"

definition randomBytes :: "(nat \<Rightarrow> 8 word) \<Rightarrow> nat \<Rightarrow> 8 word list" where
  "randomBytes src n = map src [0..<n]"

text \<open>\<open>generateNonce\<close> (utils/crypto.ts): \<open>0x\<close> and the hex of 32 random bytes.\<close>

definition generateNonce :: "(nat \<Rightarrow> 8 word) \<Rightarrow> Hex32" where
  "generateNonce src = ''0x'' @ concat (map byteToHex (randomBytes src 32))"

definition ZERO_ADDRESS :: Address where
  "ZERO_ADDRESS = ''0x0000000000000000000000000000000000000000''"

text \<open>\<open>x || null\<close> on an optional string: the empty string is falsy too.\<close>

definition truthy :: "string option \<Rightarrow> string option" where
  "truthy x = (case x of None \<Rightarrow> None | Some v \<Rightarrow> if v = [] then None else Some v)"

record PaymentRequestResult =
  pr_payment :: PaymentData
  pr_domain :: EIP712Domain
  pr_types :: "(string \<times> string) list"

definition buildPaymentRequest ::
  "Env \<Rightarrow> string \<Rightarrow> int \<Rightarrow> Address \<Rightarrow> Address option \<Rightarrow> PaymentRequestResult" where
  "buildPaymentRequest env routeKey price rcpt own =
     (let dl = Date_now env div 1000 + 600;
          nc = generateNonce (env_entropy env);
          pay = \<lparr>owner = (case truthy own of Some a \<Rightarrow> a | None \<Rightarrow> ZERO_ADDRESS),
                 amount = intToString price, deadline = dl, recipient = rcpt, nonce = nc\<rparr>
      in \<lparr>pr_payment = pay, pr_domain = buildEIP712Domain (env_config env),
          pr_types = PAYMENT_AUTHORIZATION_TYPES\<rparr>)"

section \<open>Proof validation (services/s402Service.ts)\<close>

text \<open>
  The context attached to a granted request. \<open>verificationPromise\<close> is the
  settlement verification the asynchronous validator started: the effects the run has
  and the value its promise settles with.
\<close>

record S402Context =
  ctx_owner :: Address
  ctx_value :: int
  ctx_payment :: PaymentData
  ctx_txHash :: "TxHash option"
  verifiedAsync :: "bool option"
  verificationPromise :: "(Effect list \<times> (js_error + SettlementResult)) option"

text \<open>
  The parameter validation both validators open with (the same text in both): the
  list \<open>errors\<close> when the checks are done.
\<close>

definition validationErrors :: "Env \<Rightarrow> S402Proof \<Rightarrow> int \<Rightarrow> Address \<Rightarrow> string list" where
  "validationErrors env pr expectedPrice expectedRecipient =
     (let chainId = getChainId (env_config env);
          now = Date_now env div 1000
      in
      (if truthy (txHash pr) = None
       then [''Transaction hash is required for verification''] else []) @
      (if amount (payment pr) \<noteq> intToString expectedPrice
       then [''Invalid payment value: expected '' @ intToString expectedPrice @ '', got '' @
             amount (payment pr)] else []) @
      (if toLowerCase (recipient (payment pr)) \<noteq> toLowerCase expectedRecipient
       then [''Invalid recipient: expected '' @ expectedRecipient @ '', got '' @
             recipient (payment pr)] else []) @
      (if deadline (payment pr) \<le> now
       then [''Payment deadline expired: '' @ intToString (deadline (payment pr)) @ '' <= '' @
             intToString now] else []) @
      (if chainId \<noteq> 56
       then [''Invalid chain ID: expected 56, configured as '' @ intToString chainId] else []))"

text \<open>
  \<open>proof.txHash!\<close>: the hash, which the first check has shown to be there when this
  is read.
\<close>

definition txHashOf :: "S402Proof \<Rightarrow> TxHash" where
  "txHashOf pr = (case txHash pr of Some h \<Rightarrow> h | None \<Rightarrow> [])"

definition errorText :: "SettlementResult \<Rightarrow> string" where
  "errorText r = (case error r of Some m \<Rightarrow> m | None \<Rightarrow> ''undefined'')"

definition validateSubmittedProof ::
  "Env \<Rightarrow> S402Proof \<Rightarrow> int \<Rightarrow> Address \<Rightarrow> Effect list \<times> (js_error + S402Context)" where
  "validateSubmittedProof env pr expectedPrice expectedRecipient =
     (let errors = validationErrors env pr expectedPrice expectedRecipient in
      if errors \<noteq> []
      then ([Logged LWarn ''Proof validation failed''],
            Inl (new_Error (''Proof validation failed: '' @ join '', '' errors)))
      else if \<not> verifyEIP712Signature (env_ethers env) (payment pr) (authSig pr)
                   (buildEIP712Domain (env_config env))
      then ([Logged LError ''Invalid EIP-712 signature - rejecting proof''],
            Inl (new_Error ''Invalid signature: EIP-712 signature verification failed''))
      else
        emit (fst (verifyTransactionSettlement (env_config env) (env_chain env) (txHashOf pr) (payment pr)))
        (case snd (verifyTransactionSettlement (env_config env) (env_chain env) (txHashOf pr) (payment pr)) of
           Inl e \<Rightarrow> ([], Inl e)
         | Inr verification \<Rightarrow>
             if \<not> verified verification
             then ([Logged LError ''Transaction verification failed''],
                   Inl (new_Error (''Transaction verification failed: '' @ errorText verification)))
             else
               emit [Logged LInfo ''Payment proof validated successfully with on-chain transaction verification'']
               (case BigInt (amount (payment pr)) of
                  Inl e \<Rightarrow> ([], Inl e)
                | Inr v \<Rightarrow>
                    ([], Inr \<lparr>ctx_owner = owner (payment pr), ctx_value = v,
                              ctx_payment = payment pr, ctx_txHash = txHash pr,
                              verifiedAsync = None, verificationPromise = None\<rparr>))))"

text \<open>
  \<open>validateSubmittedProofAsync\<close>: the verification is started and not awaited. The
  validator has the effects the verification has before its first \<open>await\<close> (the
  call of \<open>getTransactionReceipt\<close>); the run goes into the context as the pending
  promise.
\<close>

definition validateSubmittedProofAsync ::
  "Env \<Rightarrow> S402Proof \<Rightarrow> int \<Rightarrow> Address \<Rightarrow> Effect list \<times> (js_error + S402Context)" where
  "validateSubmittedProofAsync env pr expectedPrice expectedRecipient =
     (let errors = validationErrors env pr expectedPrice expectedRecipient in
      if errors \<noteq> []
      then ([Logged LWarn ''Proof validation failed''],
            Inl (new_Error (''Proof validation failed: '' @ join '', '' errors)))
      else if \<not> verifyEIP712Signature (env_ethers env) (payment pr) (authSig pr)
                   (buildEIP712Domain (env_config env))
      then ([Logged LError ''Invalid EIP-712 signature - rejecting proof''],
            Inl (new_Error ''Invalid signature: EIP-712 signature verification failed''))
      else
        (let verificationPromise =
               verifyTransactionSettlement (env_config env) (env_chain env) (txHashOf pr) (payment pr)
         in emit (beforeFirstAwait (fst verificationPromise))
            (case BigInt (amount (payment pr)) of
               Inl e \<Rightarrow> ([], Inl e)
             | Inr v \<Rightarrow>
                 ([], Inr \<lparr>ctx_owner = owner (payment pr), ctx_value = v,
                           ctx_payment = payment pr, ctx_txHash = txHash pr,
                           verifiedAsync = Some True,
                           verificationPromise = Some verificationPromise\<rparr>))))"

section \<open>The gating middleware (middleware/s402Middleware.ts)\<close>

text \<open>\<open>PaymentRequired402\<close>, the body of a 402 response (utils/http.ts).\<close>

record PaymentRequired402 =
  pr402_error :: string
  pr402_message :: string
  pr402_facilitator :: Address
  pr402_token :: Address
  pr402_chainId :: int
  pr402_routeKey :: string
  pr402_payment :: PaymentData
  pr402_typedData_domain :: EIP712Domain
  pr402_typedData_types :: "(string \<times> string) list"

definition buildPaymentRequired ::
  "Address \<Rightarrow> Address \<Rightarrow> int \<Rightarrow> string \<Rightarrow> PaymentData \<Rightarrow> EIP712Domain \<Rightarrow> PaymentRequired402" where
  "buildPaymentRequired facilitator token chainId routeKey pay dm =
     \<lparr>pr402_error = ''PAYMENT_REQUIRED'', pr402_message = ''Payment required via S402.'',
      pr402_facilitator = facilitator, pr402_token = token, pr402_chainId = chainId,
      pr402_routeKey = routeKey, pr402_payment = pay, pr402_typedData_domain = dm,
      pr402_typedData_types = PAYMENT_AUTHORIZATION_TYPES\<rparr>"

datatype Details =
    NoDetails
  | DetailsText string
  | DetailsIssues "string list"
  | DetailsStack js_error

text \<open>A JSON response body: the 402 challenge, or \<open>{error, message, details}\<close>.\<close>

datatype ResponseBody =
    PaymentRequired PaymentRequired402
  | ErrorBody string string Details

text \<open>
  How a middleware ends: it sends a response, it calls \<open>next()\<close> with the context
  it has put on the request (if any), or it calls \<open>next(error)\<close>.
\<close>

datatype Outcome =
    Respond int ResponseBody
  | Next "S402Context option"
  | NextError js_error

text \<open>
  A middleware run: how it ends, what it does before that, and what the continuation
  it leaves on a pending promise does afterwards.
\<close>

record MiddlewareRun =
  outcome :: Outcome
  foreground :: "Effect list"
  background :: "Effect list"

record Request =
  body_s402Proof :: "S402Proof option"
  body_owner :: "string option"

definition VERIFICATION_FAILED_DETAILS :: string where
  "VERIFICATION_FAILED_DETAILS =
     ''Either the signature is invalid, payment parameters are incorrect, or the payment was not settled on-chain.''"

definition isVerificationMessage :: "string \<Rightarrow> bool" where
  "isVerificationMessage m =
     (String_includes m ''validation failed'' \<or> String_includes m ''not settled'' \<or>
      String_includes m ''Invalid signature'')"

text \<open>
  The \<open>catch\<close> block of \<open>requireS402\<close> and of \<open>requireS402Async\<close> (the same text
  but for the log message).
\<close>

definition catchS402 :: "js_error \<Rightarrow> Outcome" where
  "catchS402 e =
     (case e of
        JsError n m \<Rightarrow>
          if isVerificationMessage m
          then Respond 403 (ErrorBody ''PAYMENT_VERIFICATION_FAILED'' m
                 (DetailsText VERIFICATION_FAILED_DETAILS))
          else if n = ''ZodError''
          then Respond 400 (ErrorBody ''INVALID_PROOF_FORMAT'' ''S402 proof has invalid format''
                 NoDetails)
          else NextError e
      | StatusError st code m \<Rightarrow>
          if isVerificationMessage m
          then Respond 403 (ErrorBody ''PAYMENT_VERIFICATION_FAILED'' m
                 (DetailsText VERIFICATION_FAILED_DETAILS))
          else NextError e
      | ZodError iss \<Rightarrow>
          Respond 400 (ErrorBody ''INVALID_PROOF_FORMAT'' ''S402 proof has invalid format''
            (DetailsIssues iss)))"

text \<open>The branch \<open>if (!proof)\<close>: the 402 challenge, for the price that was resolved.\<close>

definition paymentRequiredResponse :: "Env \<Rightarrow> string \<Rightarrow> int \<Rightarrow> Request \<Rightarrow> Outcome" where
  "paymentRequiredResponse env routeKey price req =
     (let chainId = getChainId (env_config env);
          rcpt = getRecipientForRoute (env_config env) routeKey;
          own = truthy (body_owner req);
          built = buildPaymentRequest env routeKey price rcpt own
      in Respond 402 (PaymentRequired
           (buildPaymentRequired S402_FACILITATOR USD1_TOKEN chainId routeKey
              (pr_payment built) (pr_domain built))))"

text \<open>
  \<open>requireS402\<close>. The price is resolved inside the \<open>try\<close> block, so an error the
  lookup throws goes to the \<open>catch\<close> block like any other.
\<close>

definition requireS402 :: "Env \<Rightarrow> string \<Rightarrow> Request \<Rightarrow> MiddlewareRun" where
  "requireS402 env routeKey req =
     (case getPriceForRoute (env_config env) routeKey of
        Inl e \<Rightarrow>
          \<lparr>outcome = catchS402 e,
           foreground = [Logged LError ''S402 verification failed''], background = []\<rparr>
      | Inr price \<Rightarrow>
     (let rcpt = getRecipientForRoute (env_config env) routeKey
      in case body_s402Proof req of
           None \<Rightarrow>
             \<lparr>outcome = paymentRequiredResponse env routeKey price req,
              foreground = [Logged LInfo ''Returning 402 Payment Required''], background = []\<rparr>
         | Some pr \<Rightarrow>
        (case s402ProofSchema_parse pr of
           Inl e \<Rightarrow>
             \<lparr>outcome = catchS402 e,
              foreground = [Logged LError ''S402 verification failed''], background = []\<rparr>
         | Inr validatedProof \<Rightarrow>
        (case snd (validateSubmittedProof env validatedProof price rcpt) of
           Inl e \<Rightarrow>
             \<lparr>outcome = catchS402 e,
              foreground =
                [Logged LInfo ''S402 proof submitted - beginning validation''] @
                fst (validateSubmittedProof env validatedProof price rcpt) @
                [Logged LError ''S402 verification failed''],
              background = []\<rparr>
         | Inr ctx \<Rightarrow>
             \<lparr>outcome = Next (Some ctx),
              foreground =
                [Logged LInfo ''S402 proof submitted - beginning validation''] @
                fst (validateSubmittedProof env validatedProof price rcpt) @
                [Logged LInfo ''Payment VERIFIED (signature + on-chain) - granting API access''],
              background = []\<rparr>))))"

text \<open>
  What happens after \<open>requireS402Async\<close> has called \<open>next()\<close>: the pending
  verification goes on from its first \<open>await\<close>, and the continuation attached with
  \<open>.then(...).catch(...)\<close> writes one log entry when the promise settles.
\<close>

definition backgroundVerification ::
  "(Effect list \<times> (js_error + SettlementResult)) option \<Rightarrow> Effect list" where
  "backgroundVerification p =
     (case p of
        None \<Rightarrow> []
      | Some run \<Rightarrow>
          afterFirstAwait (fst run) @
          (case snd run of
             Inr result \<Rightarrow>
               if verified result
               then [Logged LInfo ''Background blockchain verification completed successfully'']
               else [Logged LWarn ''Background blockchain verification failed (API access already granted)'']
           | Inl e \<Rightarrow>
               [Logged LWarn ''Background blockchain verification error (API access already granted)'']))"

definition requireS402Async :: "Env \<Rightarrow> string \<Rightarrow> Request \<Rightarrow> MiddlewareRun" where
  "requireS402Async env routeKey req =
     (case getPriceForRoute (env_config env) routeKey of
        Inl e \<Rightarrow>
          \<lparr>outcome = catchS402 e,
           foreground = [Logged LError ''S402 async verification failed''], background = []\<rparr>
      | Inr price \<Rightarrow>
     (let rcpt = getRecipientForRoute (env_config env) routeKey
      in case body_s402Proof req of
           None \<Rightarrow>
             \<lparr>outcome = paymentRequiredResponse env routeKey price req,
              foreground = [Logged LInfo ''Returning 402 Payment Required''], background = []\<rparr>
         | Some pr \<Rightarrow>
        (case s402ProofSchema_parse pr of
           Inl e \<Rightarrow>
             \<lparr>outcome = catchS402 e,
              foreground = [Logged LError ''S402 async verification failed''], background = []\<rparr>
         | Inr validatedProof \<Rightarrow>
        (case snd (validateSubmittedProofAsync env validatedProof price rcpt) of
           Inl e \<Rightarrow>
             \<lparr>outcome = catchS402 e,
              foreground =
                [Logged LInfo ''S402 proof submitted - beginning async validation''] @
                fst (validateSubmittedProofAsync env validatedProof price rcpt) @
                [Logged LError ''S402 async verification failed''],
              background = []\<rparr>
         | Inr ctx \<Rightarrow>
             \<lparr>outcome = Next (Some ctx),
              foreground =
                [Logged LInfo ''S402 proof submitted - beginning async validation''] @
                fst (validateSubmittedProofAsync env validatedProof price rcpt) @
                [Logged LInfo ''Payment ACCEPTED (signature verified, blockchain verification in background) - granting API access''],
              background = backgroundVerification (verificationPromise ctx)\<rparr>))))"

section \<open>The error handler and the route (middleware/errorHandler.ts, routes.ts)\<close>

definition errorHandler :: "EnvConfig \<Rightarrow> js_error \<Rightarrow> int \<times> ResponseBody" where
  "errorHandler cfg err =
     (case err of
        ZodError iss \<Rightarrow>
          (400, ErrorBody ''VALIDATION_ERROR'' ''Invalid request data'' (DetailsIssues iss))
      | StatusError st code m \<Rightarrow>
          if st \<noteq> 0
          then (st, ErrorBody (case truthy code of Some c \<Rightarrow> c | None \<Rightarrow> ''ERROR'') m NoDetails)
          else (500, ErrorBody ''INTERNAL_ERROR'' ''An internal server error occurred''
                  (if isDev cfg then DetailsStack err else NoDetails))
      | JsError n m \<Rightarrow>
          (500, ErrorBody ''INTERNAL_ERROR'' ''An internal server error occurred''
             (if isDev cfg then DetailsStack err else NoDetails)))"

text \<open>
  What the client of a gated route gets. Express runs the protected handler after
  \<open>next()\<close>, skips it after \<open>next(error)\<close> and hands the error to \<open>errorHandler\<close>,
  which \<open>registerRoutes\<close> installs last.
\<close>

datatype Served =
    Sent int ResponseBody
  | HandlerInvoked "S402Context option"

definition serve :: "EnvConfig \<Rightarrow> Outcome \<Rightarrow> Served" where
  "serve cfg out =
     (case out of
        Respond st b \<Rightarrow> Sent st b
      | Next ctx \<Rightarrow> HandlerInvoked ctx
      | NextError e \<Rightarrow> Sent (fst (errorHandler cfg e)) (snd (errorHandler cfg e)))"

section \<open>The signature verifier as the specification words it\<close>

text \<open>
  The claim's reading of the signed value, in the words of the specification: the
  payment with \<open>spender\<close> set to the verifying contract of the domain that is passed.
\<close>

definition spec_typedValue :: "PaymentData \<Rightarrow> EIP712Domain \<Rightarrow> PaymentAuthorization" where
  "spec_typedValue pay dm =
     \<lparr>pa_owner = owner pay, pa_spender = verifyingContract dm, pa_value = amount pay,
      pa_deadline = deadline pay, pa_recipient = recipient pay, pa_nonce = nonce pay\<rparr>"

definition spec_verifyEIP712Signature ::
  "Ethers \<Rightarrow> PaymentData \<Rightarrow> Signature \<Rightarrow> EIP712Domain \<Rightarrow> bool" where
  "spec_verifyEIP712Signature lib pay sg dm =
     (case Signature_from lib sg of
        Inl e \<Rightarrow> False
      | Inr signature \<Rightarrow>
          (case verifyTypedData lib dm PAYMENT_AUTHORIZATION_TYPES (spec_typedValue pay dm) signature of
             Inl e \<Rightarrow> False
           | Inr recoveredAddress \<Rightarrow> toLowerCase recoveredAddress = toLowerCase (owner pay)))"

section \<open>Example data\<close>

text \<open>
  One payment, one proof of it and a few chains, for the concrete instances below. The
  chain reports the owner's address in mixed case; the proof has it in lower case.
\<close>

definition ex_owner :: Address where
  "ex_owner = ''0xabcdefabcdefabcdefabcdefabcdefabcdefabcd''"

definition ex_owner_mixed :: Address where
  "ex_owner_mixed = ''0xABCDEFabcdefABCDEFabcdefABCDEFabcdefABCD''"

definition ex_recipient :: Address where
  "ex_recipient = ''0x0000000000000000000000000000000000000002''"

definition ex_nonce :: Hex32 where
  "ex_nonce = ''0xaaaaaaaaaaaaaaaaaaaaaaaaaaaaaaaaaaaaaaaaaaaaaaaaaaaaaaaaaaaaaaaa''"

definition ex_txHash :: TxHash where
  "ex_txHash = ''0x4242424242424242424242424242424242424242424242424242424242424242''"

definition ex_payment :: PaymentData where
  "ex_payment =
     \<lparr>owner = ex_owner, amount = ''1000000000000000'', deadline = 2000000000,
      recipient = ex_recipient, nonce = ex_nonce\<rparr>"

definition ex_sig :: Signature where
  "ex_sig =
     \<lparr>sig_v = 27,
      sig_r = ''0x1111111111111111111111111111111111111111111111111111111111111111'',
      sig_s = ''0x2222222222222222222222222222222222222222222222222222222222222222''\<rparr>"

definition ex_proof :: S402Proof where
  "ex_proof = \<lparr>payment = ex_payment, permitSig = None, authSig = ex_sig, txHash = Some ex_txHash\<rparr>"

definition ex_cfg :: EnvConfig where
  "ex_cfg =
     \<lparr>CHAIN_ID = 56, RECIPIENT = ex_recipient, BASE_PRICE_USD1 = 1000000000000000,
      priceTable = Map.empty, MINIMUM_CONFIRMATIONS = 2, isDev = False\<rparr>"

text \<open>
  An ethers library in which \<open>ex_sig\<close> is the owner's signature of the typed value the
  server rebuilds from \<open>ex_payment\<close>, and of nothing else.
\<close>

definition ex_ethers :: Ethers where
  "ex_ethers =
     \<lparr>Signature_from = (\<lambda>sg. Inr sg),
      verifyTypedData = (\<lambda>dm tys v sg.
        if v = typedValue ex_payment \<and> sg = ex_sig then Inr ex_owner_mixed
        else Inr ZERO_ADDRESS)\<rparr>"

definition ex_log :: Log where
  "ex_log = \<lparr>topics = [''0x01''], log_data = ''0x''\<rparr>"

text \<open>The settlement event, emitted with the net amount and the fee apart.\<close>

definition ex_event :: LogDescription where
  "ex_event =
     \<lparr>ev_name = ''PaymentSettled'', ev_from = Some ex_owner_mixed, ev_to = Some ex_recipient,
      ev_nonce = Some ex_nonce, ev_value = Some 990000000000000,
      ev_platformFee = Some 10000000000000\<rparr>"

definition ex_tx :: TransactionResponse where
  "ex_tx = \<lparr>tx_data = ''0x'', tx_value = 0, tx_from = Some ex_owner_mixed\<rparr>"

definition ex_call :: TransactionDescription where
  "ex_call =
     \<lparr>fn_name = ''settlePayment'',
      fn_payment = Some \<lparr>d_owner = Some ex_owner_mixed, d_value = Some 1000000000000000,
                          d_deadline = Some 2000000000, d_recipient = Some ex_recipient,
                          d_nonce = Some ex_nonce\<rparr>\<rparr>"

text \<open>
  A chain on which the settlement sits in block 100: with its event in the receipt or
  without, and with the head at a given block.
\<close>

definition ex_receipt :: "Log list \<Rightarrow> TransactionReceipt" where
  "ex_receipt ls =
     \<lparr>blockNumber = 100, status = Some 1, receipt_to = Some S402_FACILITATOR, logs = ls\<rparr>"

definition ex_chain :: "Log list \<Rightarrow> int \<Rightarrow> ChainClient" where
  "ex_chain ls head =
     \<lparr>getTransactionReceipt = (\<lambda>h. if h = ex_txHash then Inr (Some (ex_receipt ls)) else Inr None),
      getBlockNumber = Inr head,
      getTransaction = (\<lambda>h. if h = ex_txHash then Inr (Some ex_tx) else Inr None),
      parseLog = (\<lambda>lg. if lg = ex_log then Inr (Some ex_event) else Inr None),
      parseTransaction = (\<lambda>d v. if d = ''0x'' then Inr (Some ex_call) else Inr None)\<rparr>"

text \<open>A chain client with no connection: every provider call throws.\<close>

definition ex_chain_down :: ChainClient where
  "ex_chain_down =
     \<lparr>getTransactionReceipt = (\<lambda>h. Inl (JsError ''Error'' ''could not detect network'')),
      getBlockNumber = Inl (JsError ''Error'' ''could not detect network''),
      getTransaction = (\<lambda>h. Inl (JsError ''Error'' ''could not detect network'')),
      parseLog = (\<lambda>lg. Inr None),
      parseTransaction = (\<lambda>d v. Inr None)\<rparr>"

text \<open>
  The chain without the event, with call data the decoder throws on, and with call data
  of another function of the contract.
\<close>

definition ex_chain_garbled :: ChainClient where
  "ex_chain_garbled =
     (ex_chain [] 105)\<lparr>parseTransaction := (\<lambda>d v. Inl (JsError ''Error'' ''data out-of-bounds''))\<rparr>"

definition ex_chain_other :: ChainClient where
  "ex_chain_other =
     (ex_chain [] 105)\<lparr>parseTransaction :=
        (\<lambda>d v. Inr (Some \<lparr>fn_name = ''setPlatformFee'', fn_payment = None\<rparr>))\<rparr>"

text \<open>The request with a proof that offers less than the price.\<close>

definition ex_request_underpaid :: Request where
  "ex_request_underpaid =
     \<lparr>body_s402Proof = Some (ex_proof\<lparr>payment := ex_payment\<lparr>amount := ''999''\<rparr>\<rparr>),
      body_owner = None\<rparr>"

text \<open>A request without a proof and without a declared owner.\<close>

definition ex_request_plain :: Request where
  "ex_request_plain = \<lparr>body_s402Proof = None, body_owner = None\<rparr>"

text \<open>
  A domain with another verifying contract, and an ethers library in which \<open>ex_sig\<close>
  is the owner's signature of the payment authorization whose spender is that
  contract, and of nothing else.
\<close>

definition ex_domain_other :: EIP712Domain where
  "ex_domain_other =
     \<lparr>domain_name = ''S402Facilitator'', domain_version = ''1'', domain_chainId = 56,
      verifyingContract = ''0x0000000000000000000000000000000000000001''\<rparr>"

definition ex_ethers_other :: Ethers where
  "ex_ethers_other =
     \<lparr>Signature_from = (\<lambda>sg. Inr sg),
      verifyTypedData = (\<lambda>dm tys v sg.
        if v = spec_typedValue ex_payment ex_domain_other \<and> sg = ex_sig then Inr ex_owner_mixed
        else Inr ZERO_ADDRESS)\<rparr>"

text \<open>An ethers library that rejects every signature as malformed.\<close>

definition ex_ethers_malformed :: Ethers where
  "ex_ethers_malformed =
     \<lparr>Signature_from = (\<lambda>sg. Inl (JsError ''TypeError'' ''invalid signature'')),
      verifyTypedData = (\<lambda>dm tys v sg. Inr ex_owner)\<rparr>"

definition ex_env :: "ChainClient \<Rightarrow> Env" where
  "ex_env ch =
     \<lparr>env_config = ex_cfg, Date_now = 1700000000000, env_entropy = (\<lambda>i. of_nat i),
      env_ethers = ex_ethers, env_chain = ch\<rparr>"

definition ex_cfg_priced :: EnvConfig where
  "ex_cfg_priced = ex_cfg\<lparr>priceTable := [''tool.analytics'' \<mapsto> 5000000000000000]\<rparr>"

definition ex_env_priced :: "ChainClient \<Rightarrow> Env" where
  "ex_env_priced ch = (ex_env ch)\<lparr>env_config := ex_cfg_priced\<rparr>"

definition ex_request :: Request where
  "ex_request = \<lparr>body_s402Proof = Some ex_proof, body_owner = None\<rparr>"

section \<open>Strings: decimal rendering and substrings\<close>

lemma natToString_lt10: "n < 10 \<Longrightarrow> natToString n = [digitChar n]"
  by (simp add: natToString.simps [of n])

lemma natToString_ge10:
  "10 \<le> n \<Longrightarrow> natToString n = natToString (n div 10) @ [digitChar (n mod 10)]"
  by (simp add: natToString.simps [of n])

lemma digitVal_digitChar: "d < 10 \<Longrightarrow> digitVal (digitChar d) = d"
proof -
  assume "d < 10"
  then have "d \<in> {0, 1, 2, 3, 4, 5, 6, 7, 8, 9}" by auto
  then show ?thesis by (auto simp: digitVal_def digitChar_def)
qed

lemma isDigit_digitChar: "d < 10 \<Longrightarrow> isDigit (digitChar d)"
proof -
  assume "d < 10"
  then have "d \<in> {0, 1, 2, 3, 4, 5, 6, 7, 8, 9}" by auto
  then show ?thesis by (auto simp: isDigit_def digitChar_def)
qed

lemma natToString_digits: "list_all isDigit (natToString n) \<and> natToString n \<noteq> []"
proof (induction n rule: natToString.induct)
  case (1 n)
  show ?case
  proof (cases "n < 10")
    case True
    then show ?thesis by (simp add: natToString_lt10 isDigit_digitChar)
  next
    case False
    with 1 show ?thesis by (simp add: natToString_ge10 isDigit_digitChar)
  qed
qed

lemma isDecimalString_natToString: "isDecimalString (natToString n)"
  by (simp add: isDecimalString_def natToString_digits)

lemma digitsValue_snoc: "digitsValue (s @ [c]) = 10 * digitsValue s + digitVal c"
  by (simp add: digitsValue_def)

lemma digitsValue_natToString: "digitsValue (natToString n) = n"
proof (induction n rule: natToString.induct)
  case (1 n)
  show ?case
  proof (cases "n < 10")
    case True
    then show ?thesis by (simp add: natToString_lt10 digitsValue_def digitVal_digitChar)
  next
    case False
    with 1 show ?thesis by (simp add: natToString_ge10 digitsValue_snoc digitVal_digitChar)
  qed
qed

lemma BigInt_natToString: "BigInt (natToString n) = Inr (int n)"
  by (simp add: BigInt_def isDecimalString_natToString digitsValue_natToString)

lemma natToString_inject: "natToString a = natToString b \<longleftrightarrow> a = b"
  by (metis digitsValue_natToString)

lemma natToString_eq_intToString: "natToString a = intToString b \<longleftrightarrow> int a = b"
proof (cases "b < 0")
  case True
  have "isDigit (hd (natToString a))"
    using natToString_digits [of a] by (cases "natToString a") auto
  moreover have "\<not> isDigit (CHR ''-'')" by (simp add: isDigit_def)
  ultimately have "natToString a \<noteq> CHR ''-'' # natToString (nat (- b))"
    by (cases "natToString a") auto
  with True show ?thesis by (simp add: intToString_def)
next
  case False
  then show ?thesis by (auto simp: intToString_def natToString_inject)
qed

lemma startsWith_append: "startsWith (t @ s) t"
  by (induction t) auto

lemma String_includes_append: "String_includes (p @ t @ s) t"
proof (induction p)
  case Nil
  show ?case using startsWith_append [of t s] by (cases "t @ s") auto
next
  case (Cons a p)
  then show ?case by simp
qed

lemma join_member: "e \<in> set xs \<Longrightarrow> \<exists>p s. join sep xs = p @ e @ s"
proof (induction sep xs rule: join.induct)
  case (1 sep)
  then show ?case by simp
next
  case (2 sep x)
  then have "join sep [x] = [] @ e @ []" by simp
  then show ?case by blast
next
  case (3 sep x y ys)
  show ?case
  proof (cases "e = x")
    case True
    then have "join sep (x # y # ys) = [] @ e @ (sep @ join sep (y # ys))" by simp
    then show ?thesis by blast
  next
    case False
    with 3 obtain p s where "join sep (y # ys) = p @ e @ s" by auto
    then have "join sep (x # y # ys) = (x @ sep @ p) @ e @ s" by simp
    then show ?thesis by blast
  qed
qed

lemma String_includes_join:
  "e \<in> set xs \<Longrightarrow> String_includes (pre @ join sep xs) e"
proof -
  assume "e \<in> set xs"
  then obtain p s where "join sep xs = p @ e @ s" using join_member by blast
  then have "pre @ join sep xs = (pre @ p) @ e @ s" by simp
  then show ?thesis using String_includes_append [of "pre @ p" e s] by simp
qed

section \<open>Settlement verification\<close>

lemma scanLogs_iff: "scanLogs chain pay ls \<longleftrightarrow> (\<exists>lg\<in>set ls. logMatches chain pay lg)"
  by (induction ls) auto

lemma try_insufficient:
  assumes "getTransactionReceipt chain h = Inr (Some receipt)"
    and "getBlockNumber chain = Inr currentBlock"
    and "currentBlock - blockNumber receipt + 1 < getMinimumConfirmations cfg"
  shows "verifyTransactionSettlement_try cfg chain h pay =
           ([Call (GetTransactionReceipt h), Call GetBlockNumber,
             Logged LWarn ''Insufficient confirmations''],
            Inr (failed (currentBlock - blockNumber receipt + 1)
                   (''Insufficient confirmations: '' @
                    intToString (currentBlock - blockNumber receipt + 1) @ ''/'' @
                    intToString (getMinimumConfirmations cfg))))"
  using assms by (simp add: verifyTransactionSettlement_try_def emit_def Let_def)

lemma viaCalldata_confirmations:
  assumes "snd (verifyViaCalldata chain h pay c) = Inr r"
  shows "confirmations r = c"
  using assms
  by (auto simp: verifyViaCalldata_def emit_def failed_def
           split: sum.splits option.splits if_splits)

lemma try_confirmations:
  assumes "getTransactionReceipt chain h = Inr (Some receipt)"
    and "getBlockNumber chain = Inr currentBlock"
    and "snd (verifyTransactionSettlement_try cfg chain h pay) = Inr r"
  shows "confirmations r = currentBlock - blockNumber receipt + 1"
  using assms viaCalldata_confirmations [of chain h pay "currentBlock - blockNumber receipt + 1" r]
  by (auto simp: verifyTransactionSettlement_try_def emit_def failed_def Let_def
           split: if_splits)

lemma try_after_checks:
  assumes "getTransactionReceipt chain h = Inr (Some receipt)"
    and "getBlockNumber chain = Inr currentBlock"
    and "\<not> currentBlock - blockNumber receipt + 1 < getMinimumConfirmations cfg"
    and "status receipt = Some 1"
    and "map_option toLowerCase (receipt_to receipt) = Some (toLowerCase S402_FACILITATOR)"
  shows "verifyTransactionSettlement_try cfg chain h pay =
           emit [Call (GetTransactionReceipt h), Call GetBlockNumber]
             (if scanLogs chain pay (logs receipt)
              then ([Logged LInfo ''Transaction verified successfully via PaymentSettled event''],
                    Inr \<lparr>verified = True,
                         confirmations = currentBlock - blockNumber receipt + 1, error = None\<rparr>)
              else verifyViaCalldata chain h pay (currentBlock - blockNumber receipt + 1))"
  using assms by (simp add: verifyTransactionSettlement_try_def emit_def Let_def)

lemma eventMatches_full:
  assumes "ev_from parsed = Some f" and "toLowerCase f = toLowerCase (owner pay)"
    and "ev_to parsed = Some t" and "toLowerCase t = toLowerCase (recipient pay)"
    and "ev_nonce parsed = Some (nonce pay)"
    and "ev_value parsed = Some v"
    and "BigInt (amount pay) = Inr expected"
    and "int v = expected \<or>
         int (v + (case ev_platformFee parsed of None \<Rightarrow> 0 | Some fee \<Rightarrow> fee)) = expected"
  shows "eventMatches pay parsed = Inr True"
  using assms by (simp add: eventMatches_def Let_def)

lemma settlement_returns:
  "\<exists>r. snd (verifyTransactionSettlement cfg chain h pay) = Inr r"
  by (cases "snd (verifyTransactionSettlement_try cfg chain h pay)")
     (simp_all add: verifyTransactionSettlement_def)

lemma ex_owner_lower: "toLowerCase ex_owner_mixed = toLowerCase ex_owner"
  by (simp add: ex_owner_mixed_def ex_owner_def toLowerCase_def lowerChar_def)

lemma ex_amount: "BigInt (amount ex_payment) = Inr 1000000000000000"
  by (simp add: ex_payment_def BigInt_def isDecimalString_def isDigit_def digitsValue_def
        digitVal_def)

text \<open>
  Claim C5. When the receipt of the transaction is found and the provider gives the
  head block, the confirmations of every result the \<open>try\<close> block returns are
  \<open>currentBlock - receipt.blockNumber + 1\<close>, and so are those of the function's result
  unless \<open>getTransaction\<close> threw. When that count is below the configured
  minimum, the verifier returns \<open>verified = false\<close> with that count and the error
  \<open>Insufficient confirmations: have/need\<close>, after two provider calls and nothing
  else: the result is the same whatever the receipt's status, target and logs are, and
  whatever the decoders and \<open>getTransaction\<close> would have returned.
\<close>

theorem confirmations_short_circuit:
  assumes "getTransactionReceipt chain h = Inr (Some receipt)"
    and "getBlockNumber chain = Inr currentBlock"
  shows "(\<forall>r. snd (verifyTransactionSettlement_try cfg chain h pay) = Inr r \<longrightarrow>
              confirmations r = currentBlock - blockNumber receipt + 1) \<and>
         (\<forall>r. snd (verifyTransactionSettlement cfg chain h pay) = Inr r \<longrightarrow>
              confirmations r = currentBlock - blockNumber receipt + 1 \<or>
              (\<exists>e. getTransaction chain h = Inl e)) \<and>
         (currentBlock - blockNumber receipt + 1 < getMinimumConfirmations cfg \<longrightarrow>
          verifyTransactionSettlement cfg chain h pay =
            ([Call (GetTransactionReceipt h), Call GetBlockNumber,
              Logged LWarn ''Insufficient confirmations''],
             Inr \<lparr>verified = False,
                  confirmations = currentBlock - blockNumber receipt + 1,
                  error = Some (''Insufficient confirmations: '' @
                     intToString (currentBlock - blockNumber receipt + 1) @ ''/'' @
                     intToString (getMinimumConfirmations cfg))\<rparr>))"
proof (intro conjI allI impI)
  fix r
  assume "snd (verifyTransactionSettlement_try cfg chain h pay) = Inr r"
  then show "confirmations r = currentBlock - blockNumber receipt + 1"
    by (rule try_confirmations [OF assms])
next
  fix r
  assume r: "snd (verifyTransactionSettlement cfg chain h pay) = Inr r"
  show "confirmations r = currentBlock - blockNumber receipt + 1 \<or>
        (\<exists>e. getTransaction chain h = Inl e)"
  proof (cases "snd (verifyTransactionSettlement_try cfg chain h pay)")
    case (Inl e)
    then have "getTransaction chain h = Inl e"
      using assms
      by (auto simp: verifyTransactionSettlement_try_def verifyViaCalldata_def emit_def Let_def
            split: sum.splits option.splits if_splits)
    then show ?thesis by blast
  next
    case (Inr r')
    with r have "r' = r" by (simp add: verifyTransactionSettlement_def)
    with Inr try_confirmations [OF assms, of cfg pay r] show ?thesis by simp
  qed
next
  assume "currentBlock - blockNumber receipt + 1 < getMinimumConfirmations cfg"
  then show "verifyTransactionSettlement cfg chain h pay =
            ([Call (GetTransactionReceipt h), Call GetBlockNumber,
              Logged LWarn ''Insufficient confirmations''],
             Inr \<lparr>verified = False,
                  confirmations = currentBlock - blockNumber receipt + 1,
                  error = Some (''Insufficient confirmations: '' @
                     intToString (currentBlock - blockNumber receipt + 1) @ ''/'' @
                     intToString (getMinimumConfirmations cfg))\<rparr>)"
    by (simp add: verifyTransactionSettlement_def try_insufficient [OF assms] failed_def)
qed

text \<open>
  The instance: the settlement is in block 100, the head is block 100 and two
  confirmations are required.
\<close>

theorem confirmations_short_circuit_witness:
  "verifyTransactionSettlement ex_cfg (ex_chain [ex_log] 100) ex_txHash ex_payment =
     ([Call (GetTransactionReceipt ex_txHash), Call GetBlockNumber,
       Logged LWarn ''Insufficient confirmations''],
      Inr \<lparr>verified = False, confirmations = 1,
           error = Some ''Insufficient confirmations: 1/2''\<rparr>)"
  using confirmations_short_circuit
    [of "ex_chain [ex_log] 100" ex_txHash "ex_receipt [ex_log]" 100 ex_cfg ex_payment]
  by (simp add: ex_chain_def ex_receipt_def ex_cfg_def getMinimumConfirmations_def
        intToString_def natToString_lt10 digitChar_def)

text \<open>
  Claim C3. When the receipt passes the confirmation, status and target-contract
  checks and some log of the receipt decodes to a \<open>PaymentSettled\<close> event whose
  \<open>from\<close> is the payment's owner and whose \<open>to\<close> is its recipient (both compared
  in lower case), whose nonce is the payment's nonce, and whose value, or value plus
  platform fee, is the payment's value, the verifier returns \<open>verified = true\<close> with
  the confirmations, says so in the log as verified via the event, and has made two
  provider calls only: \<open>getTransaction\<close>, which opens the call-data fallback, is
  not among them.
\<close>

theorem primary_path_verifies:
  assumes "getTransactionReceipt chain h = Inr (Some receipt)"
    and "getBlockNumber chain = Inr currentBlock"
    and "\<not> currentBlock - blockNumber receipt + 1 < getMinimumConfirmations cfg"
    and "status receipt = Some 1"
    and "map_option toLowerCase (receipt_to receipt) = Some (toLowerCase S402_FACILITATOR)"
    and "lg \<in> set (logs receipt)"
    and "parseLog chain lg = Inr (Some parsed)"
    and "ev_name parsed = ''PaymentSettled''"
    and "ev_from parsed = Some f" and "toLowerCase f = toLowerCase (owner pay)"
    and "ev_to parsed = Some t" and "toLowerCase t = toLowerCase (recipient pay)"
    and "ev_nonce parsed = Some (nonce pay)"
    and "ev_value parsed = Some v"
    and "BigInt (amount pay) = Inr expected"
    and "int v = expected \<or>
         int (v + (case ev_platformFee parsed of None \<Rightarrow> 0 | Some fee \<Rightarrow> fee)) = expected"
  shows "verifyTransactionSettlement cfg chain h pay =
           ([Call (GetTransactionReceipt h), Call GetBlockNumber,
             Logged LInfo ''Transaction verified successfully via PaymentSettled event''],
            Inr \<lparr>verified = True, confirmations = currentBlock - blockNumber receipt + 1,
                 error = None\<rparr>)"
proof -
  have "eventMatches pay parsed = Inr True"
    by (rule eventMatches_full [OF assms(9-16)])
  with assms(7,8) have "logMatches chain pay lg"
    by (simp add: logMatches_def)
  with assms(6) have "scanLogs chain pay (logs receipt)"
    by (auto simp: scanLogs_iff)
  with try_after_checks [OF assms(1-5), of pay] show ?thesis
    by (simp add: verifyTransactionSettlement_def emit_def)
qed

text \<open>
  The instance: the event carries the net amount and the fee, the head is five blocks
  past the settlement, and the transaction's call data would match as well.
\<close>

theorem primary_path_verifies_witness:
  "verifyTransactionSettlement ex_cfg (ex_chain [ex_log] 105) ex_txHash ex_payment =
     ([Call (GetTransactionReceipt ex_txHash), Call GetBlockNumber,
       Logged LInfo ''Transaction verified successfully via PaymentSettled event''],
      Inr \<lparr>verified = True, confirmations = 6, error = None\<rparr>)"
  using primary_path_verifies
    [of "ex_chain [ex_log] 105" ex_txHash "ex_receipt [ex_log]" 105 ex_cfg ex_log ex_event
        ex_owner_mixed ex_payment ex_recipient 990000000000000 1000000000000000]
    ex_owner_lower ex_amount
  by (simp add: ex_chain_def ex_receipt_def ex_cfg_def getMinimumConfirmations_def
        ex_event_def ex_payment_def)

lemma Number_toString_safe:
  "isSafeInteger i \<Longrightarrow> natToString d = Number_toString i \<longleftrightarrow> int d = i"
  by (simp add: Number_toString_def natToString_eq_intToString)

lemma calldataMatches_iff:
  "isSafeInteger (deadline pay) \<Longrightarrow>
   list_all id (calldataMatches pay txPayment tx) \<longleftrightarrow>
     (\<exists>a. d_owner txPayment = Some a \<and> toLowerCase a = toLowerCase (owner pay)) \<and>
     (\<exists>a. d_recipient txPayment = Some a \<and> toLowerCase a = toLowerCase (recipient pay)) \<and>
     (\<exists>v. d_value txPayment = Some v \<and> natToString v = amount pay) \<and>
     (\<exists>d. d_deadline txPayment = Some d \<and> int d = deadline pay) \<and>
     d_nonce txPayment = Some (nonce pay) \<and>
     (\<exists>a. tx_from tx = Some a \<and> toLowerCase a = toLowerCase (owner pay))"
  by (auto simp: calldataMatches_def Number_toString_safe)

lemma viaCalldata_calls:
  "Call (GetTransaction h) \<in> set (fst (verifyViaCalldata chain h pay c))"
  by (simp add: verifyViaCalldata_def emit_def)

lemma viaCalldata_verified:
  "snd (verifyViaCalldata chain h pay c) =
     (case getTransaction chain h of
        Inl e \<Rightarrow> Inl e
      | Inr None \<Rightarrow> Inr (failed c ''Transaction data unavailable'')
      | Inr (Some tx) \<Rightarrow>
     (case parseTransaction chain (tx_data tx) (tx_value tx) of
        Inl e \<Rightarrow> Inr (failed c ''Unable to parse transaction calldata'')
      | Inr None \<Rightarrow> Inr (failed c ''Unexpected function call'')
      | Inr (Some parsedTx) \<Rightarrow>
          if fn_name parsedTx \<noteq> ''settlePayment'' \<and> fn_name parsedTx \<noteq> ''settlePaymentWithPermit''
          then Inr (failed c ''Unexpected function call'')
          else
     (case fn_payment parsedTx of
        None \<Rightarrow> Inr (failed c ''Missing payment arguments'')
      | Some txPayment \<Rightarrow>
          if list_all id (calldataMatches pay txPayment tx)
          then Inr \<lparr>verified = True, confirmations = c, error = None\<rparr>
          else Inr (failed c ''Payment parameters mismatch''))))"
  by (simp add: verifyViaCalldata_def emit_def split: sum.splits option.splits)

lemma viaCalldata_verified_iff:
  assumes "snd (verifyViaCalldata chain h pay c) = Inr r"
  shows "verified r \<longleftrightarrow>
     (\<exists>tx parsedTx txPayment.
        getTransaction chain h = Inr (Some tx) \<and>
        parseTransaction chain (tx_data tx) (tx_value tx) = Inr (Some parsedTx) \<and>
        (fn_name parsedTx = ''settlePayment'' \<or> fn_name parsedTx = ''settlePaymentWithPermit'') \<and>
        fn_payment parsedTx = Some txPayment \<and>
        list_all id (calldataMatches pay txPayment tx))"
  using assms unfolding viaCalldata_verified
  by (auto simp: failed_def split: sum.splits option.splits if_splits)

lemma try_calls_before_fallback:
  assumes "\<not> (\<exists>receipt currentBlock.
             getTransactionReceipt chain h = Inr (Some receipt) \<and>
             getBlockNumber chain = Inr currentBlock \<and>
             \<not> currentBlock - blockNumber receipt + 1 < getMinimumConfirmations cfg \<and>
             status receipt = Some 1 \<and>
             map_option toLowerCase (receipt_to receipt) = Some (toLowerCase S402_FACILITATOR) \<and>
             \<not> scanLogs chain pay (logs receipt))"
  shows "Call (GetTransaction h) \<notin> set (fst (verifyTransactionSettlement_try cfg chain h pay))"
  using assms
  by (auto simp: verifyTransactionSettlement_try_def emit_def Let_def
           split: sum.splits option.splits if_splits)

lemma settlement_calls:
  "Call (GetTransaction h) \<in> set (fst (verifyTransactionSettlement cfg chain h pay)) \<longleftrightarrow>
   Call (GetTransaction h) \<in> set (fst (verifyTransactionSettlement_try cfg chain h pay))"
  by (auto simp: verifyTransactionSettlement_def split: sum.splits)

lemma try_throws_only_provider:
  assumes "snd (verifyTransactionSettlement_try cfg chain h pay) = Inl e"
  shows "getTransactionReceipt chain h = Inl e \<or> getBlockNumber chain = Inl e \<or>
         getTransaction chain h = Inl e"
  using assms
  by (auto simp: verifyTransactionSettlement_try_def viaCalldata_verified emit_def Let_def
           split: sum.splits option.splits if_splits)

text \<open>
  Claim C9. \<open>verifyTransactionSettlement\<close> never propagates an exception: for every
  configuration, chain, hash and payment it returns a result. Whenever its \<open>try\<close>
  block throws, the result is \<open>verified = false\<close>, \<open>confirmations = 0\<close> and the
  error \<open>Verification failed\<close>; what the block throws is what one of the three
  provider calls threw, and each provider call that is reached and throws makes the
  block throw.
\<close>

theorem settlement_never_throws:
  "(\<exists>r. snd (verifyTransactionSettlement cfg chain h pay) = Inr r) \<and>
   (\<forall>e. snd (verifyTransactionSettlement_try cfg chain h pay) = Inl e \<longrightarrow>
        snd (verifyTransactionSettlement cfg chain h pay) =
          Inr \<lparr>verified = False, confirmations = 0, error = Some ''Verification failed''\<rparr> \<and>
        (getTransactionReceipt chain h = Inl e \<or> getBlockNumber chain = Inl e \<or>
         getTransaction chain h = Inl e)) \<and>
   (\<forall>e. getTransactionReceipt chain h = Inl e \<longrightarrow>
        snd (verifyTransactionSettlement_try cfg chain h pay) = Inl e) \<and>
   (\<forall>e receipt. getTransactionReceipt chain h = Inr (Some receipt) \<and>
        getBlockNumber chain = Inl e \<longrightarrow>
        snd (verifyTransactionSettlement_try cfg chain h pay) = Inl e) \<and>
   (\<forall>e. Call (GetTransaction h) \<in> set (fst (verifyTransactionSettlement_try cfg chain h pay)) \<and>
        getTransaction chain h = Inl e \<longrightarrow>
        snd (verifyTransactionSettlement_try cfg chain h pay) = Inl e)"
proof (intro conjI allI impI)
  show "\<exists>r. snd (verifyTransactionSettlement cfg chain h pay) = Inr r"
    by (rule settlement_returns)
next
  fix e assume "snd (verifyTransactionSettlement_try cfg chain h pay) = Inl e"
  then show "snd (verifyTransactionSettlement cfg chain h pay) =
          Inr \<lparr>verified = False, confirmations = 0, error = Some ''Verification failed''\<rparr>"
    by (simp add: verifyTransactionSettlement_def failed_def)
next
  fix e assume "snd (verifyTransactionSettlement_try cfg chain h pay) = Inl e"
  then show "getTransactionReceipt chain h = Inl e \<or> getBlockNumber chain = Inl e \<or>
         getTransaction chain h = Inl e"
    by (rule try_throws_only_provider)
next
  fix e assume "getTransactionReceipt chain h = Inl e"
  then show "snd (verifyTransactionSettlement_try cfg chain h pay) = Inl e"
    by (simp add: verifyTransactionSettlement_try_def emit_def)
next
  fix e receipt
  assume "getTransactionReceipt chain h = Inr (Some receipt) \<and> getBlockNumber chain = Inl e"
  then show "snd (verifyTransactionSettlement_try cfg chain h pay) = Inl e"
    by (simp add: verifyTransactionSettlement_try_def emit_def)
next
  fix e
  assume a: "Call (GetTransaction h) \<in> set (fst (verifyTransactionSettlement_try cfg chain h pay)) \<and>
        getTransaction chain h = Inl e"
  then obtain receipt currentBlock where r:
    "getTransactionReceipt chain h = Inr (Some receipt)"
    "getBlockNumber chain = Inr currentBlock"
    "\<not> currentBlock - blockNumber receipt + 1 < getMinimumConfirmations cfg"
    "status receipt = Some 1"
    "map_option toLowerCase (receipt_to receipt) = Some (toLowerCase S402_FACILITATOR)"
    "\<not> scanLogs chain pay (logs receipt)"
    using try_calls_before_fallback [of chain h cfg pay] by blast
  with a show "snd (verifyTransactionSettlement_try cfg chain h pay) = Inl e"
    by (simp add: try_after_checks [OF r(1-5)] emit_def viaCalldata_verified)
qed

text \<open>The instance: a provider that has no connection.\<close>

theorem settlement_never_throws_witness:
  "snd (verifyTransactionSettlement ex_cfg ex_chain_down ex_txHash ex_payment) =
     Inr \<lparr>verified = False, confirmations = 0, error = Some ''Verification failed''\<rparr>"
  using settlement_never_throws [of ex_cfg ex_chain_down ex_txHash ex_payment]
  by (simp add: ex_chain_down_def)

text \<open>
  Claim C4. The fallback is reached (\<open>getTransaction\<close> is called) only when the
  receipt was found and none of its logs matched as a settlement event. When the
  receipt passes the confirmation, status and target checks and no log matches (for a
  payment whose value is a decimal string, as the schema requires, and whose deadline
  is a safe integer, so that the number renders as its decimal digits), the fallback is
  reached and the verifier returns \<open>verified = true\<close> if and only if the transaction
  is found, its call data decodes as \<open>settlePayment\<close> or \<open>settlePaymentWithPermit\<close>
  with a payment struct, the struct's owner and recipient are the payment's (compared
  as addresses, in lower case), its value renders as the payment's value string, its
  deadline is the payment's deadline, its nonce is the payment's nonce, and the
  transaction's sender is the payment's owner. Call data that does not decode as one of
  the two settlement functions fails: with \<open>Unable to parse transaction calldata\<close>
  when the decoder throws, with \<open>Unexpected function call\<close> when it decodes to no
  function or to another one.
\<close>

theorem fallback_path:
  "(Call (GetTransaction h) \<in> set (fst (verifyTransactionSettlement cfg chain h pay)) \<longrightarrow>
      (\<exists>receipt. getTransactionReceipt chain h = Inr (Some receipt) \<and>
         (\<forall>lg\<in>set (logs receipt). \<not> logMatches chain pay lg))) \<and>
   (getTransactionReceipt chain h = Inr (Some receipt) \<and>
    getBlockNumber chain = Inr currentBlock \<and>
    \<not> currentBlock - blockNumber receipt + 1 < getMinimumConfirmations cfg \<and>
    status receipt = Some 1 \<and>
    map_option toLowerCase (receipt_to receipt) = Some (toLowerCase S402_FACILITATOR) \<and>
    isDecimalString (amount pay) \<and> isSafeInteger (deadline pay) \<and>
    (\<forall>lg\<in>set (logs receipt). \<not> logMatches chain pay lg) \<longrightarrow>
      Call (GetTransaction h) \<in> set (fst (verifyTransactionSettlement cfg chain h pay)) \<and>
      (\<exists>r. snd (verifyTransactionSettlement cfg chain h pay) = Inr r \<and>
         (verified r \<longleftrightarrow>
            (\<exists>tx parsedTx txPayment.
               getTransaction chain h = Inr (Some tx) \<and>
               parseTransaction chain (tx_data tx) (tx_value tx) = Inr (Some parsedTx) \<and>
               (fn_name parsedTx = ''settlePayment'' \<or>
                fn_name parsedTx = ''settlePaymentWithPermit'') \<and>
               fn_payment parsedTx = Some txPayment \<and>
               (\<exists>a. d_owner txPayment = Some a \<and> toLowerCase a = toLowerCase (owner pay)) \<and>
               (\<exists>a. d_recipient txPayment = Some a \<and>
                    toLowerCase a = toLowerCase (recipient pay)) \<and>
               (\<exists>v. d_value txPayment = Some v \<and> natToString v = amount pay) \<and>
               (\<exists>d. d_deadline txPayment = Some d \<and> int d = deadline pay) \<and>
               d_nonce txPayment = Some (nonce pay) \<and>
               (\<exists>a. tx_from tx = Some a \<and> toLowerCase a = toLowerCase (owner pay))))) \<and>
      (\<forall>tx e. getTransaction chain h = Inr (Some tx) \<and>
          parseTransaction chain (tx_data tx) (tx_value tx) = Inl e \<longrightarrow>
          snd (verifyTransactionSettlement cfg chain h pay) =
            Inr \<lparr>verified = False, confirmations = currentBlock - blockNumber receipt + 1,
                 error = Some ''Unable to parse transaction calldata''\<rparr>) \<and>
      (\<forall>tx. getTransaction chain h = Inr (Some tx) \<and>
          (parseTransaction chain (tx_data tx) (tx_value tx) = Inr None \<or>
           (\<exists>parsedTx. parseTransaction chain (tx_data tx) (tx_value tx) = Inr (Some parsedTx) \<and>
              fn_name parsedTx \<noteq> ''settlePayment'' \<and>
              fn_name parsedTx \<noteq> ''settlePaymentWithPermit'')) \<longrightarrow>
          snd (verifyTransactionSettlement cfg chain h pay) =
            Inr \<lparr>verified = False, confirmations = currentBlock - blockNumber receipt + 1,
                 error = Some ''Unexpected function call''\<rparr>))"
proof (intro conjI impI)
  assume "Call (GetTransaction h) \<in> set (fst (verifyTransactionSettlement cfg chain h pay))"
  then have "Call (GetTransaction h) \<in> set (fst (verifyTransactionSettlement_try cfg chain h pay))"
    by (simp add: settlement_calls)
  then obtain receipt where "getTransactionReceipt chain h = Inr (Some receipt)"
    and "\<not> scanLogs chain pay (logs receipt)"
    using try_calls_before_fallback [of chain h cfg pay] by blast
  then show "\<exists>receipt. getTransactionReceipt chain h = Inr (Some receipt) \<and>
         (\<forall>lg\<in>set (logs receipt). \<not> logMatches chain pay lg)"
    by (auto simp: scanLogs_iff)
next
  assume a: "getTransactionReceipt chain h = Inr (Some receipt) \<and>
    getBlockNumber chain = Inr currentBlock \<and>
    \<not> currentBlock - blockNumber receipt + 1 < getMinimumConfirmations cfg \<and>
    status receipt = Some 1 \<and>
    map_option toLowerCase (receipt_to receipt) = Some (toLowerCase S402_FACILITATOR) \<and>
    isDecimalString (amount pay) \<and> isSafeInteger (deadline pay) \<and>
    (\<forall>lg\<in>set (logs receipt). \<not> logMatches chain pay lg)"
  then have safe: "isSafeInteger (deadline pay)" by simp
  from a have noscan: "\<not> scanLogs chain pay (logs receipt)"
    by (simp add: scanLogs_iff)
  have t: "verifyTransactionSettlement_try cfg chain h pay =
        emit [Call (GetTransactionReceipt h), Call GetBlockNumber]
          (verifyViaCalldata chain h pay (currentBlock - blockNumber receipt + 1))"
    using a noscan try_after_checks [of chain h receipt currentBlock cfg pay] by simp
  show "Call (GetTransaction h) \<in> set (fst (verifyTransactionSettlement cfg chain h pay))"
    by (simp add: settlement_calls t emit_def viaCalldata_calls)
  obtain r where r: "snd (verifyTransactionSettlement cfg chain h pay) = Inr r"
    using settlement_returns by blast
  have v: "verified r \<longleftrightarrow>
      (\<exists>r'. snd (verifyViaCalldata chain h pay (currentBlock - blockNumber receipt + 1)) = Inr r' \<and>
            verified r')"
    using r by (auto simp: verifyTransactionSettlement_def t emit_def failed_def split: sum.splits)
  have "verified r \<longleftrightarrow>
            (\<exists>tx parsedTx txPayment.
               getTransaction chain h = Inr (Some tx) \<and>
               parseTransaction chain (tx_data tx) (tx_value tx) = Inr (Some parsedTx) \<and>
               (fn_name parsedTx = ''settlePayment'' \<or>
                fn_name parsedTx = ''settlePaymentWithPermit'') \<and>
               fn_payment parsedTx = Some txPayment \<and>
               list_all id (calldataMatches pay txPayment tx))"
  proof (cases "snd (verifyViaCalldata chain h pay (currentBlock - blockNumber receipt + 1))")
    case (Inl e)
    then have "getTransaction chain h = Inl e"
      by (auto simp: viaCalldata_verified split: sum.splits option.splits if_splits)
    with Inl v show ?thesis by simp
  next
    case (Inr r')
    with v viaCalldata_verified_iff [OF Inr] show ?thesis by simp
  qed
  then show "\<exists>r. snd (verifyTransactionSettlement cfg chain h pay) = Inr r \<and>
         (verified r \<longleftrightarrow>
            (\<exists>tx parsedTx txPayment.
               getTransaction chain h = Inr (Some tx) \<and>
               parseTransaction chain (tx_data tx) (tx_value tx) = Inr (Some parsedTx) \<and>
               (fn_name parsedTx = ''settlePayment'' \<or>
                fn_name parsedTx = ''settlePaymentWithPermit'') \<and>
               fn_payment parsedTx = Some txPayment \<and>
               (\<exists>a. d_owner txPayment = Some a \<and> toLowerCase a = toLowerCase (owner pay)) \<and>
               (\<exists>a. d_recipient txPayment = Some a \<and>
                    toLowerCase a = toLowerCase (recipient pay)) \<and>
               (\<exists>v. d_value txPayment = Some v \<and> natToString v = amount pay) \<and>
               (\<exists>d. d_deadline txPayment = Some d \<and> int d = deadline pay) \<and>
               d_nonce txPayment = Some (nonce pay) \<and>
               (\<exists>a. tx_from tx = Some a \<and> toLowerCase a = toLowerCase (owner pay))))"
    using r unfolding calldataMatches_iff [OF safe] by blast
  show "\<forall>tx e. getTransaction chain h = Inr (Some tx) \<and>
          parseTransaction chain (tx_data tx) (tx_value tx) = Inl e \<longrightarrow>
          snd (verifyTransactionSettlement cfg chain h pay) =
            Inr \<lparr>verified = False, confirmations = currentBlock - blockNumber receipt + 1,
                 error = Some ''Unable to parse transaction calldata''\<rparr>"
    by (auto simp: verifyTransactionSettlement_def t emit_def viaCalldata_verified failed_def)
  show "\<forall>tx. getTransaction chain h = Inr (Some tx) \<and>
          (parseTransaction chain (tx_data tx) (tx_value tx) = Inr None \<or>
           (\<exists>parsedTx. parseTransaction chain (tx_data tx) (tx_value tx) = Inr (Some parsedTx) \<and>
              fn_name parsedTx \<noteq> ''settlePayment'' \<and>
              fn_name parsedTx \<noteq> ''settlePaymentWithPermit'')) \<longrightarrow>
          snd (verifyTransactionSettlement cfg chain h pay) =
            Inr \<lparr>verified = False, confirmations = currentBlock - blockNumber receipt + 1,
                 error = Some ''Unexpected function call''\<rparr>"
    by (auto simp: verifyTransactionSettlement_def t emit_def viaCalldata_verified failed_def)
qed

lemma ex_amount_rendered: "natToString 1000000000000000 = amount ex_payment"
  by (simp add: ex_payment_def natToString_ge10 natToString_lt10 digitChar_def)

lemma ex_amount_decimal: "isDecimalString (amount ex_payment)"
  by (simp add: ex_payment_def isDecimalString_def isDigit_def)

lemma ex_deadline_safe: "isSafeInteger (deadline ex_payment)"
  by (simp add: ex_payment_def isSafeInteger_def MAX_SAFE_INTEGER_def)

text \<open>
  The instances: the receipt has no logs and the call data is \<open>settlePayment\<close> of the
  payment, sent by the owner; the decoder throws on the call data; the call data is
  another function's.
\<close>

theorem fallback_path_witness:
  "(\<exists>r. snd (verifyTransactionSettlement ex_cfg (ex_chain [] 105) ex_txHash ex_payment) = Inr r \<and>
        verified r) \<and>
   Call (GetTransaction ex_txHash) \<in>
     set (fst (verifyTransactionSettlement ex_cfg (ex_chain [] 105) ex_txHash ex_payment)) \<and>
   snd (verifyTransactionSettlement ex_cfg ex_chain_garbled ex_txHash ex_payment) =
     Inr \<lparr>verified = False, confirmations = 6,
          error = Some ''Unable to parse transaction calldata''\<rparr> \<and>
   snd (verifyTransactionSettlement ex_cfg ex_chain_other ex_txHash ex_payment) =
     Inr \<lparr>verified = False, confirmations = 6, error = Some ''Unexpected function call''\<rparr>"
proof -
  have a: "(\<exists>r. snd (verifyTransactionSettlement ex_cfg (ex_chain [] 105) ex_txHash ex_payment) = Inr r \<and>
        verified r) \<and>
     Call (GetTransaction ex_txHash) \<in>
       set (fst (verifyTransactionSettlement ex_cfg (ex_chain [] 105) ex_txHash ex_payment))"
    using fallback_path [of ex_txHash ex_cfg "ex_chain [] 105" ex_payment "ex_receipt []" 105]
      ex_owner_lower ex_amount_rendered ex_amount_decimal ex_deadline_safe
    by (simp add: ex_chain_def ex_receipt_def ex_cfg_def getMinimumConfirmations_def
          ex_tx_def ex_call_def) (simp add: ex_payment_def)
  have b: "snd (verifyTransactionSettlement ex_cfg ex_chain_garbled ex_txHash ex_payment) =
     Inr \<lparr>verified = False, confirmations = 6,
          error = Some ''Unable to parse transaction calldata''\<rparr>"
    using fallback_path [of ex_txHash ex_cfg ex_chain_garbled ex_payment "ex_receipt []" 105]
      ex_amount_decimal ex_deadline_safe
    by (simp add: ex_chain_garbled_def ex_chain_def ex_receipt_def ex_cfg_def
          getMinimumConfirmations_def)
  have c: "snd (verifyTransactionSettlement ex_cfg ex_chain_other ex_txHash ex_payment) =
     Inr \<lparr>verified = False, confirmations = 6, error = Some ''Unexpected function call''\<rparr>"
    using fallback_path [of ex_txHash ex_cfg ex_chain_other ex_payment "ex_receipt []" 105]
      ex_amount_decimal ex_deadline_safe
    by (simp add: ex_chain_other_def ex_chain_def ex_receipt_def ex_cfg_def
          getMinimumConfirmations_def)
  from a b c show ?thesis by blast
qed

section \<open>Parameter validation\<close>

lemma validationErrors_env:
  "validationErrors (env\<lparr>env_ethers := lib, env_chain := ch\<rparr>) pr p rcpt =
   validationErrors env pr p rcpt"
  by (simp add: validationErrors_def)

lemma validate_rejects:
  assumes "validationErrors env pr p rcpt \<noteq> []"
  shows "validateSubmittedProof env pr p rcpt =
           ([Logged LWarn ''Proof validation failed''],
            Inl (new_Error (''Proof validation failed: '' @
                   join '', '' (validationErrors env pr p rcpt))))"
    and "validateSubmittedProofAsync env pr p rcpt =
           ([Logged LWarn ''Proof validation failed''],
            Inl (new_Error (''Proof validation failed: '' @
                   join '', '' (validationErrors env pr p rcpt))))"
  using assms by (simp_all add: validateSubmittedProof_def validateSubmittedProofAsync_def Let_def)

lemma validation_message_403:
  "catchS402 (new_Error (''Proof validation failed: '' @ m)) =
     Respond 403 (ErrorBody ''PAYMENT_VERIFICATION_FAILED'' (''Proof validation failed: '' @ m)
       (DetailsText VERIFICATION_FAILED_DETAILS))"
proof -
  have "String_includes (''Proof '' @ ''validation failed'' @ ('': '' @ m)) ''validation failed''"
    by (rule String_includes_append)
  then have "isVerificationMessage (''Proof validation failed: '' @ m)"
    by (simp add: isVerificationMessage_def)
  then show ?thesis by (simp add: catchS402_def new_Error_def)
qed

lemma parse_ok: "s402ProofSchema pr \<Longrightarrow> s402ProofSchema_parse pr = Inr pr"
  by (simp add: s402ProofSchema_parse_def)

lemma gate_rejects:
  assumes "body_s402Proof req = Some pr" and "s402ProofSchema pr"
    and "getPriceForRoute (env_config env) routeKey = Inr price"
    and "validationErrors env pr price (getRecipientForRoute (env_config env) routeKey) \<noteq> []"
  shows "requireS402 env routeKey req =
           \<lparr>outcome = Respond 403 (ErrorBody ''PAYMENT_VERIFICATION_FAILED''
                (''Proof validation failed: '' @ join '', ''
                   (validationErrors env pr price
                      (getRecipientForRoute (env_config env) routeKey)))
                (DetailsText VERIFICATION_FAILED_DETAILS)),
            foreground = [Logged LInfo ''S402 proof submitted - beginning validation'',
                          Logged LWarn ''Proof validation failed'',
                          Logged LError ''S402 verification failed''],
            background = []\<rparr>"
    and "requireS402Async env routeKey req =
           \<lparr>outcome = Respond 403 (ErrorBody ''PAYMENT_VERIFICATION_FAILED''
                (''Proof validation failed: '' @ join '', ''
                   (validationErrors env pr price
                      (getRecipientForRoute (env_config env) routeKey)))
                (DetailsText VERIFICATION_FAILED_DETAILS)),
            foreground = [Logged LInfo ''S402 proof submitted - beginning async validation'',
                          Logged LWarn ''Proof validation failed'',
                          Logged LError ''S402 async verification failed''],
            background = []\<rparr>"
  using assms
  by (simp_all add: requireS402_def requireS402Async_def parse_ok validate_rejects
        validation_message_403 [simplified] Let_def)

lemma ex_price: "getPriceForRoute ex_cfg ''tool.example'' = Inr 1000000000000000"
  by (simp add: getPriceForRoute_def ex_cfg_def Object_prototype_keys_def)

lemma validationErrors_members:
  "truthy (txHash pr) = None \<Longrightarrow>
     ''Transaction hash is required for verification'' \<in> set (validationErrors env pr p rcpt)"
  "amount (payment pr) \<noteq> intToString p \<Longrightarrow>
     ''Invalid payment value: expected '' @ intToString p @ '', got '' @ amount (payment pr)
       \<in> set (validationErrors env pr p rcpt)"
  "toLowerCase (recipient (payment pr)) \<noteq> toLowerCase rcpt \<Longrightarrow>
     ''Invalid recipient: expected '' @ rcpt @ '', got '' @ recipient (payment pr)
       \<in> set (validationErrors env pr p rcpt)"
  "deadline (payment pr) \<le> Date_now env div 1000 \<Longrightarrow>
     ''Payment deadline expired: '' @ intToString (deadline (payment pr)) @ '' <= '' @
       intToString (Date_now env div 1000) \<in> set (validationErrors env pr p rcpt)"
  "getChainId (env_config env) \<noteq> 56 \<Longrightarrow>
     ''Invalid chain ID: expected 56, configured as '' @ intToString (getChainId (env_config env))
       \<in> set (validationErrors env pr p rcpt)"
  by (simp_all add: validationErrors_def Let_def)

lemma providerCalls_logged [simp]:
  "providerCalls (Logged l m # es) = providerCalls es" "providerCalls [] = []"
  by (simp_all add: providerCalls_def)

text \<open>
  Claim C6. For a proof that passes the schema, if the transaction hash is missing, or
  the payment's value is not the decimal rendering of the route's resolved price, or
  its recipient differs in lower case from the resolved recipient, or its deadline is
  not after the current time in seconds, or the configured chain id is not 56, then
  both middlewares answer 403 with the message \<open>Proof validation failed: ...\<close>, in
  which the text of every check that failed occurs. The answer is the same for every
  ethers library and every chain: the signature check and the settlement verification
  have not run, and no provider call is made.
\<close>

theorem parameter_mismatch_rejected:
  assumes "body_s402Proof req = Some pr" and "s402ProofSchema pr"
    and "getPriceForRoute (env_config env) routeKey = Inr price"
    and "rcpt = getRecipientForRoute (env_config env) routeKey"
    and "msg = ''Proof validation failed: '' @ join '', '' (validationErrors env pr price rcpt)"
    and "truthy (txHash pr) = None \<or> amount (payment pr) \<noteq> intToString price \<or>
         toLowerCase (recipient (payment pr)) \<noteq> toLowerCase rcpt \<or>
         deadline (payment pr) \<le> Date_now env div 1000 \<or>
         getChainId (env_config env) \<noteq> 56"
  shows "outcome (requireS402 (env\<lparr>env_ethers := lib, env_chain := ch\<rparr>) routeKey req) =
           Respond 403 (ErrorBody ''PAYMENT_VERIFICATION_FAILED'' msg
             (DetailsText VERIFICATION_FAILED_DETAILS)) \<and>
         outcome (requireS402Async (env\<lparr>env_ethers := lib, env_chain := ch\<rparr>) routeKey req) =
           Respond 403 (ErrorBody ''PAYMENT_VERIFICATION_FAILED'' msg
             (DetailsText VERIFICATION_FAILED_DETAILS)) \<and>
         providerCalls
           (foreground (requireS402 (env\<lparr>env_ethers := lib, env_chain := ch\<rparr>) routeKey req)) = [] \<and>
         providerCalls
           (foreground (requireS402Async (env\<lparr>env_ethers := lib, env_chain := ch\<rparr>) routeKey req)) = [] \<and>
         background (requireS402Async (env\<lparr>env_ethers := lib, env_chain := ch\<rparr>) routeKey req) = [] \<and>
         (truthy (txHash pr) = None \<longrightarrow>
            String_includes msg ''Transaction hash is required for verification'') \<and>
         (amount (payment pr) \<noteq> intToString price \<longrightarrow>
            String_includes msg
              (''Invalid payment value: expected '' @ intToString price @ '', got '' @
               amount (payment pr))) \<and>
         (toLowerCase (recipient (payment pr)) \<noteq> toLowerCase rcpt \<longrightarrow>
            String_includes msg
              (''Invalid recipient: expected '' @ rcpt @ '', got '' @ recipient (payment pr))) \<and>
         (deadline (payment pr) \<le> Date_now env div 1000 \<longrightarrow>
            String_includes msg
              (''Payment deadline expired: '' @ intToString (deadline (payment pr)) @ '' <= '' @
               intToString (Date_now env div 1000))) \<and>
         (getChainId (env_config env) \<noteq> 56 \<longrightarrow>
            String_includes msg
              (''Invalid chain ID: expected 56, configured as '' @
               intToString (getChainId (env_config env))))"
proof -
  let ?env = "env\<lparr>env_ethers := lib, env_chain := ch\<rparr>"
  have cfg: "env_config ?env = env_config env" by simp
  have errs: "validationErrors env pr price rcpt \<noteq> []"
    using assms(6) validationErrors_members [where pr = pr and env = env and p = price and rcpt = rcpt] by fastforce
  then have errs': "validationErrors ?env pr price
           (getRecipientForRoute (env_config ?env) routeKey) \<noteq> []"
    using assms(4) by (simp add: validationErrors_env)
  have price: "getPriceForRoute (env_config ?env) routeKey = Inr price"
    using assms(3) by simp
  have sync: "requireS402 ?env routeKey req =
           \<lparr>outcome = Respond 403 (ErrorBody ''PAYMENT_VERIFICATION_FAILED'' msg
                (DetailsText VERIFICATION_FAILED_DETAILS)),
            foreground = [Logged LInfo ''S402 proof submitted - beginning validation'',
                          Logged LWarn ''Proof validation failed'',
                          Logged LError ''S402 verification failed''],
            background = []\<rparr>"
    using gate_rejects(1) [OF assms(1,2) price errs'] assms(4,5)
    by (simp add: validationErrors_env)
  have async: "requireS402Async ?env routeKey req =
           \<lparr>outcome = Respond 403 (ErrorBody ''PAYMENT_VERIFICATION_FAILED'' msg
                (DetailsText VERIFICATION_FAILED_DETAILS)),
            foreground = [Logged LInfo ''S402 proof submitted - beginning async validation'',
                          Logged LWarn ''Proof validation failed'',
                          Logged LError ''S402 async verification failed''],
            background = []\<rparr>"
    using gate_rejects(2) [OF assms(1,2) price errs'] assms(4,5)
    by (simp add: validationErrors_env)
  have incl: "\<And>e. e \<in> set (validationErrors env pr price rcpt) \<Longrightarrow> String_includes msg e"
    unfolding assms(5) by (rule String_includes_join)
  show ?thesis
    using validationErrors_members [where pr = pr and env = env and p = price and rcpt = rcpt, THEN incl]
    by (simp add: sync async)
qed

text \<open>The instance: a proof that offers 999 units where the price is 1000000000000000.\<close>

theorem parameter_mismatch_rejected_witness:
  "outcome (requireS402 (ex_env (ex_chain [ex_log] 105)) ''tool.example'' ex_request_underpaid) =
     Respond 403 (ErrorBody ''PAYMENT_VERIFICATION_FAILED''
       ''Proof validation failed: Invalid payment value: expected 1000000000000000, got 999''
       (DetailsText VERIFICATION_FAILED_DETAILS))"
proof -
  have schema: "s402ProofSchema (ex_proof\<lparr>payment := ex_payment\<lparr>amount := ''999''\<rparr>\<rparr>)"
    by (simp add: s402ProofSchema_def paymentDataSchema_def signatureSchema_def addressSchema_def
          hex32Schema_def txHashSchema_def matchesHex_def isHexDigit_def isDecimalString_def
          isDigit_def ex_proof_def ex_payment_def ex_sig_def ex_owner_def ex_recipient_def
          ex_nonce_def ex_txHash_def)
  have price: "intToString 1000000000000000 = ''1000000000000000''"
    by (simp add: intToString_def natToString_ge10 natToString_lt10 digitChar_def)
  have errs: "validationErrors (ex_env (ex_chain [ex_log] 105))
                (ex_proof\<lparr>payment := ex_payment\<lparr>amount := ''999''\<rparr>\<rparr>)
                1000000000000000
                (getRecipientForRoute ex_cfg ''tool.example'') =
              [''Invalid payment value: expected 1000000000000000, got 999'']"
    by (simp add: validationErrors_def Let_def price truthy_def)
       (simp add: ex_env_def ex_proof_def ex_payment_def ex_cfg_def getChainId_def
          getRecipientForRoute_def ex_txHash_def)
  show ?thesis
    using parameter_mismatch_rejected
      [where req = ex_request_underpaid
         and pr = "ex_proof\<lparr>payment := ex_payment\<lparr>amount := ''999''\<rparr>\<rparr>"
         and price = 1000000000000000
         and env = "ex_env (ex_chain [ex_log] 105)" and routeKey = "''tool.example''"
         and rcpt = "getRecipientForRoute ex_cfg ''tool.example''"
         and msg = "''Proof validation failed: Invalid payment value: expected 1000000000000000, got 999''"
         and lib = ex_ethers and ch = "ex_chain [ex_log] 105"]
      schema errs price ex_price
    by (simp add: ex_request_underpaid_def ex_env_def)
qed


lemma value_error_member_iff:
  "''Invalid payment value: expected '' @ intToString p @ '', got '' @ amount (payment pr)
     \<in> set (validationErrors env pr p rcpt) \<longleftrightarrow>
   amount (payment pr) \<noteq> intToString p"
  by (simp add: validationErrors_def Let_def)

lemma leading_zero:
  "isDecimalString (CHR ''0'' # natToString n) \<and>
   BigInt (CHR ''0'' # natToString n) = Inr (int n) \<and>
   CHR ''0'' # natToString n \<noteq> intToString (int n)"
proof -
  have d: "isDecimalString (CHR ''0'' # natToString n)"
    using natToString_digits [of n] by (simp add: isDecimalString_def isDigit_def)
  have "digitsValue (CHR ''0'' # natToString n) = digitsValue (natToString n)"
    by (simp add: digitsValue_def digitVal_def)
  then have v: "BigInt (CHR ''0'' # natToString n) = Inr (int n)"
    using d by (simp add: BigInt_def digitsValue_natToString)
  have "length (CHR ''0'' # natToString n) \<noteq> length (natToString n)" by simp
  then have "CHR ''0'' # natToString n \<noteq> intToString (int n)"
    by (auto simp: intToString_def)
  with d v show ?thesis by simp
qed

text \<open>
  Claim C10. In both validators the value check is string equality with the decimal
  rendering of the expected price: the value error is in the error list exactly when
  the payment's value string differs from that rendering, and then both validators
  throw \<open>Proof validation failed: ...\<close>. A value written as the price with a leading
  zero matches the schema's \<open>^\d+$\<close> and is numerically the price
  (\<open>BigInt\<close> reads it as the price), yet differs as a string, so it is rejected.
\<close>

theorem value_check_exact_string:
  "(''Invalid payment value: expected '' @ intToString p @ '', got '' @ amount (payment pr)
      \<in> set (validationErrors env pr p rcpt) \<longleftrightarrow>
    amount (payment pr) \<noteq> intToString p) \<and>
   (amount (payment pr) \<noteq> intToString p \<longrightarrow>
      snd (validateSubmittedProof env pr p rcpt) =
        Inl (new_Error (''Proof validation failed: '' @
               join '', '' (validationErrors env pr p rcpt))) \<and>
      snd (validateSubmittedProofAsync env pr p rcpt) =
        Inl (new_Error (''Proof validation failed: '' @
               join '', '' (validationErrors env pr p rcpt)))) \<and>
   (amount (payment pr) = CHR ''0'' # natToString n \<and> p = int n \<longrightarrow>
      isDecimalString (amount (payment pr)) \<and>
      BigInt (amount (payment pr)) = Inr p \<and>
      amount (payment pr) \<noteq> intToString p)"
proof (intro conjI impI)
  show "''Invalid payment value: expected '' @ intToString p @ '', got '' @ amount (payment pr)
      \<in> set (validationErrors env pr p rcpt) \<longleftrightarrow>
    amount (payment pr) \<noteq> intToString p"
    by (rule value_error_member_iff)
next
  assume "amount (payment pr) \<noteq> intToString p"
  then have "validationErrors env pr p rcpt \<noteq> []"
    using value_error_member_iff [of p pr env rcpt] by auto
  then show "snd (validateSubmittedProof env pr p rcpt) =
        Inl (new_Error (''Proof validation failed: '' @
               join '', '' (validationErrors env pr p rcpt)))"
    and "snd (validateSubmittedProofAsync env pr p rcpt) =
        Inl (new_Error (''Proof validation failed: '' @
               join '', '' (validationErrors env pr p rcpt)))"
    by (simp_all add: validate_rejects)
next
  assume a: "amount (payment pr) = CHR ''0'' # natToString n \<and> p = int n"
  with leading_zero [of n]
  show "isDecimalString (amount (payment pr))" "BigInt (amount (payment pr)) = Inr p"
    "amount (payment pr) \<noteq> intToString p"
    by simp_all
qed

lemma ex_price_rendered: "intToString 1000000000000000 = ''1000000000000000''"
  by (simp add: intToString_def natToString_ge10 natToString_lt10 digitChar_def)

text \<open>The instance: the price 1000000000000000 written as 01000000000000000.\<close>

theorem value_check_exact_string_witness:
  "paymentDataSchema (ex_payment\<lparr>amount := ''01000000000000000''\<rparr>) \<and>
   BigInt ''01000000000000000'' = Inr 1000000000000000 \<and>
   snd (validateSubmittedProof (ex_env (ex_chain [ex_log] 105))
          (ex_proof\<lparr>payment := ex_payment\<lparr>amount := ''01000000000000000''\<rparr>\<rparr>)
          1000000000000000 ex_recipient) =
     Inl (new_Error
       ''Proof validation failed: Invalid payment value: expected 1000000000000000, got 01000000000000000'')"
proof -
  have schema: "paymentDataSchema (ex_payment\<lparr>amount := ''01000000000000000''\<rparr>)"
    by (simp add: paymentDataSchema_def addressSchema_def hex32Schema_def matchesHex_def
          isHexDigit_def isDecimalString_def isDigit_def ex_payment_def ex_owner_def
          ex_recipient_def ex_nonce_def)
  have n: "natToString 1000000000000000 = ''1000000000000000''"
    by (simp add: natToString_ge10 natToString_lt10 digitChar_def)
  have errs: "validationErrors (ex_env (ex_chain [ex_log] 105))
                (ex_proof\<lparr>payment := ex_payment\<lparr>amount := ''01000000000000000''\<rparr>\<rparr>)
                1000000000000000 ex_recipient =
              [''Invalid payment value: expected 1000000000000000, got 01000000000000000'']"
    by (simp add: validationErrors_def Let_def ex_price_rendered truthy_def)
       (simp add: ex_env_def ex_proof_def ex_payment_def ex_cfg_def getChainId_def ex_txHash_def)
  show ?thesis
    using value_check_exact_string
      [where pr = "ex_proof\<lparr>payment := ex_payment\<lparr>amount := ''01000000000000000''\<rparr>\<rparr>"
         and p = 1000000000000000 and n = 1000000000000000
         and env = "ex_env (ex_chain [ex_log] 105)" and rcpt = ex_recipient]
      schema n errs ex_price_rendered
    by simp
qed


section \<open>The challenge\<close>

lemma hexChar_hex: "d < 16 \<Longrightarrow> isHexDigit (hexChar d)"
proof -
  assume "d < 16"
  then have "d \<in> set [0..<16]" by simp
  moreover have "list_all (\<lambda>d. isHexDigit (hexChar d)) [0..<16]"
    by (simp add: upt_rec isHexDigit_def hexChar_def)
  ultimately show ?thesis by (simp only: list_all_iff)
qed

lemma truthy_idem: "truthy (truthy x) = truthy x"
  by (simp add: truthy_def split: option.splits)

lemma byteToHex_hex: "list_all isHexDigit (byteToHex b) \<and> length (byteToHex b) = 2"
proof -
  have "unat b < 256" using unsigned_less [of b] by simp
  then have "unat b div 16 < 16" by simp
  then show ?thesis by (simp add: byteToHex_def hexChar_hex)
qed

lemma concat_byteToHex:
  "list_all isHexDigit (concat (map byteToHex bs)) \<and>
   length (concat (map byteToHex bs)) = 2 * length bs"
  by (induction bs) (simp_all add: byteToHex_hex)

lemma generateNonce_hex32: "hex32Schema (generateNonce src)"
  using concat_byteToHex [of "randomBytes src 32"]
  by (simp add: hex32Schema_def matchesHex_def generateNonce_def randomBytes_def)

lemma getPriceForRoute_resolved:
  "getPriceForRoute cfg routeKey = Inr price \<longleftrightarrow>
     priceTable cfg routeKey = Some price \<or>
     priceTable cfg routeKey = None \<and> routeKey \<notin> set Object_prototype_keys \<and>
     price = BASE_PRICE_USD1 cfg"
  by (auto simp: getPriceForRoute_def split: option.splits)

lemma inherited_key_throws:
  "priceTable (env_config env) routeKey = None \<Longrightarrow> routeKey \<in> set Object_prototype_keys \<Longrightarrow>
     \<exists>e. getPriceForRoute (env_config env) routeKey = Inl e \<and>
         outcome (requireS402 env routeKey req) = catchS402 e \<and>
         outcome (requireS402Async env routeKey req) = catchS402 e"
  by (simp add: getPriceForRoute_def requireS402_def requireS402Async_def)

text \<open>
  A route key that names an inherited property and has no entry of its own in the
  price table: the lookup throws, and the client gets the error handler's 500 whatever
  the request holds.
\<close>

lemma inherited_key_500:
  "getPriceForRoute ex_cfg ''constructor'' =
     Inl (JsError ''SyntaxError''
            ''Cannot convert function Object() { [native code] } to a BigInt'') \<and>
   serve ex_cfg (outcome (requireS402 (ex_env ch) ''constructor'' req)) =
     Sent 500 (ErrorBody ''INTERNAL_ERROR'' ''An internal server error occurred'' NoDetails) \<and>
   serve ex_cfg (outcome (requireS402Async (ex_env ch) ''constructor'' req)) =
     Sent 500 (ErrorBody ''INTERNAL_ERROR'' ''An internal server error occurred'' NoDetails)"
proof -
  have p: "getPriceForRoute ex_cfg ''constructor'' =
     Inl (JsError ''SyntaxError''
            ''Cannot convert function Object() { [native code] } to a BigInt'')"
    by (simp add: getPriceForRoute_def ex_cfg_def Object_prototype_keys_def inheritedText_def)
  have m: "\<not> isVerificationMessage ''Cannot convert function Object() { [native code] } to a BigInt''"
    by (simp add: isVerificationMessage_def String_includes.simps startsWith.simps)
  have c: "catchS402 (JsError ''SyntaxError''
            ''Cannot convert function Object() { [native code] } to a BigInt'') =
      NextError (JsError ''SyntaxError''
            ''Cannot convert function Object() { [native code] } to a BigInt'')"
    using m by (simp add: catchS402_def)
  show ?thesis
    using p c
    by (simp add: requireS402_def requireS402Async_def ex_env_def serve_def errorHandler_def)
       (simp add: ex_cfg_def)
qed

text \<open>
  Claim C7. For a request without a proof on a route whose price resolves (the route
  key is a key of the price table, or it is not the name of a property objects
  inherit), both middlewares answer 402 with a payment authorization whose nonce is
  \<open>0x\<close> and the hex of the 32 bytes drawn from \<open>crypto.randomBytes\<close> (a 32-byte hex
  string by the schema), whose deadline is the current unix time in seconds plus 600,
  whose value is the decimal rendering of the resolved price, that is the table's
  entry for the route key when it has one and the base price otherwise, whose
  recipient is the configured recipient, and whose owner is the owner the caller
  declared, or the zero address when none is declared. The randomness of the bytes is
  the generator's; the model takes them as given.
\<close>

theorem challenge_terms:
  assumes "body_s402Proof req = None"
    and "getPriceForRoute (env_config env) routeKey = Inr price"
  shows "\<exists>b. outcome (requireS402 env routeKey req) = Respond 402 (PaymentRequired b) \<and>
             outcome (requireS402Async env routeKey req) = Respond 402 (PaymentRequired b) \<and>
             pr402_payment b =
               \<lparr>owner = (case truthy (body_owner req) of Some a \<Rightarrow> a | None \<Rightarrow> ZERO_ADDRESS),
                amount = intToString price,
                deadline = Date_now env div 1000 + 600,
                recipient = RECIPIENT (env_config env),
                nonce = ''0x'' @ concat (map byteToHex (map (env_entropy env) [0..<32]))\<rparr> \<and>
             price = (case priceTable (env_config env) routeKey of
                        Some p \<Rightarrow> p | None \<Rightarrow> BASE_PRICE_USD1 (env_config env)) \<and>
             length (map (env_entropy env) [0..<32]) = 32 \<and>
             hex32Schema (nonce (pr402_payment b)) \<and>
             (body_owner req = None \<longrightarrow> owner (pr402_payment b) = ZERO_ADDRESS)"
proof -
  have p: "price = (case priceTable (env_config env) routeKey of
                      Some p \<Rightarrow> p | None \<Rightarrow> BASE_PRICE_USD1 (env_config env))"
    using assms(2) by (auto simp: getPriceForRoute_def split: option.splits if_splits)
  show ?thesis
    using assms generateNonce_hex32 [of "env_entropy env"] p
    by (simp add: requireS402_def requireS402Async_def paymentRequiredResponse_def
          buildPaymentRequest_def buildPaymentRequired_def Let_def generateNonce_def
          randomBytes_def truthy_idem getRecipientForRoute_def)
       (simp add: truthy_def)
qed

text \<open>
  The instances, with the clock at 1700000000000 ms and the generator drawing the
  bytes 0, 1, ..., 31: the route \<open>tool.analytics\<close>, for which the price table holds
  5000000000000000, and the route \<open>tool.example\<close>, for which it holds nothing and the
  base price 1000000000000000 applies.
\<close>

theorem challenge_terms_witness:
  "(\<exists>b. outcome (requireS402 (ex_env_priced (ex_chain [ex_log] 105)) ''tool.analytics''
             ex_request_plain) = Respond 402 (PaymentRequired b) \<and>
        pr402_payment b =
          \<lparr>owner = ''0x0000000000000000000000000000000000000000'',
           amount = ''5000000000000000'',
           deadline = 1700000600,
           recipient = ''0x0000000000000000000000000000000000000002'',
           nonce = ''0x000102030405060708090a0b0c0d0e0f101112131415161718191a1b1c1d1e1f''\<rparr>) \<and>
   (\<exists>b. outcome (requireS402 (ex_env_priced (ex_chain [ex_log] 105)) ''tool.example''
             ex_request_plain) = Respond 402 (PaymentRequired b) \<and>
        pr402_payment b =
          \<lparr>owner = ''0x0000000000000000000000000000000000000000'',
           amount = ''1000000000000000'',
           deadline = 1700000600,
           recipient = ''0x0000000000000000000000000000000000000002'',
           nonce = ''0x000102030405060708090a0b0c0d0e0f101112131415161718191a1b1c1d1e1f''\<rparr>)"
proof -
  let ?env = "ex_env_priced (ex_chain [ex_log] 105)"
  have table: "getPriceForRoute (env_config ?env) ''tool.analytics'' = Inr 5000000000000000"
    by (simp add: getPriceForRoute_def ex_env_priced_def ex_cfg_priced_def)
  have base: "getPriceForRoute (env_config ?env) ''tool.example'' = Inr 1000000000000000"
    by (simp add: getPriceForRoute_def ex_env_priced_def ex_cfg_priced_def ex_cfg_def
          Object_prototype_keys_def)
  have rendered: "intToString 5000000000000000 = ''5000000000000000''"
    by (simp add: intToString_def natToString_ge10 natToString_lt10 digitChar_def)
  have up: "[0..<32] = [0, 1, 2, 3, 4, 5, 6, 7, 8, 9, 10, 11, 12, 13, 14, 15, 16, 17, 18, 19,
              20, 21, 22, 23, 24, 25, 26, 27, 28, 29, 30, 31 :: nat]"
    by (simp add: upt_rec)
  have nonce: "''0x'' @ concat (map byteToHex (map (\<lambda>i. of_nat i) [0..<32])) =
      ''0x000102030405060708090a0b0c0d0e0f101112131415161718191a1b1c1d1e1f''"
    unfolding up by (simp add: byteToHex_def hexChar_def)
  have fields: "body_s402Proof ex_request_plain = None" "body_owner ex_request_plain = None"
    "Date_now ?env div 1000 + 600 = 1700000600"
    "RECIPIENT (env_config ?env) = ''0x0000000000000000000000000000000000000002''"
    "env_entropy ?env = (\<lambda>i. of_nat i)"
    by (simp_all add: ex_request_plain_def ex_env_priced_def ex_env_def ex_cfg_priced_def
          ex_cfg_def ex_recipient_def)
  have zero: "ZERO_ADDRESS = ''0x0000000000000000000000000000000000000000''"
    by (simp add: ZERO_ADDRESS_def)
  have a: "\<exists>b. outcome (requireS402 ?env ''tool.analytics'' ex_request_plain) =
             Respond 402 (PaymentRequired b) \<and>
        pr402_payment b =
          \<lparr>owner = ''0x0000000000000000000000000000000000000000'',
           amount = ''5000000000000000'',
           deadline = 1700000600,
           recipient = ''0x0000000000000000000000000000000000000002'',
           nonce = ''0x000102030405060708090a0b0c0d0e0f101112131415161718191a1b1c1d1e1f''\<rparr>"
    using challenge_terms
      [where req = ex_request_plain and env = ?env and routeKey = "''tool.analytics''"
         and price = 5000000000000000, OF fields(1) table]
    unfolding fields rendered nonce zero truthy_def by auto
  have b: "\<exists>b. outcome (requireS402 ?env ''tool.example'' ex_request_plain) =
             Respond 402 (PaymentRequired b) \<and>
        pr402_payment b =
          \<lparr>owner = ''0x0000000000000000000000000000000000000000'',
           amount = ''1000000000000000'',
           deadline = 1700000600,
           recipient = ''0x0000000000000000000000000000000000000002'',
           nonce = ''0x000102030405060708090a0b0c0d0e0f101112131415161718191a1b1c1d1e1f''\<rparr>"
    using challenge_terms
      [where req = ex_request_plain and env = ?env and routeKey = "''tool.example''"
         and price = 1000000000000000, OF fields(1) base]
    unfolding fields ex_price_rendered nonce zero truthy_def by auto
  show ?thesis using a b by (rule conjI)
qed


section \<open>The asynchronous discipline\<close>

lemma try_first_effect:
  "fst (verifyTransactionSettlement_try cfg ch h pay) =
     Call (GetTransactionReceipt h) # afterFirstAwait (fst (verifyTransactionSettlement_try cfg ch h pay))"
  by (simp add: verifyTransactionSettlement_try_def emit_def Let_def afterFirstAwait_def)

lemma settlement_first_effect:
  "beforeFirstAwait (fst (verifyTransactionSettlement cfg ch h pay)) =
     [Call (GetTransactionReceipt h)]"
  "fst (verifyTransactionSettlement cfg ch h pay) =
     Call (GetTransactionReceipt h) # afterFirstAwait (fst (verifyTransactionSettlement cfg ch h pay))"
proof -
  obtain es where es: "fst (verifyTransactionSettlement_try cfg ch h pay) =
      Call (GetTransactionReceipt h) # es"
    using try_first_effect by blast
  then have "\<exists>es'. fst (verifyTransactionSettlement cfg ch h pay) =
      Call (GetTransactionReceipt h) # es'"
    by (cases "snd (verifyTransactionSettlement_try cfg ch h pay)")
       (simp_all add: verifyTransactionSettlement_def)
  then obtain es' where es': "fst (verifyTransactionSettlement cfg ch h pay) =
      Call (GetTransactionReceipt h) # es'" by blast
  show "beforeFirstAwait (fst (verifyTransactionSettlement cfg ch h pay)) =
     [Call (GetTransactionReceipt h)]"
    by (simp add: es' beforeFirstAwait_def)
  show "fst (verifyTransactionSettlement cfg ch h pay) =
     Call (GetTransactionReceipt h) # afterFirstAwait (fst (verifyTransactionSettlement cfg ch h pay))"
    by (simp add: es' afterFirstAwait_def)
qed

lemma schema_amount: "s402ProofSchema pr \<Longrightarrow> isDecimalString (amount (payment pr))"
  by (simp add: s402ProofSchema_def paymentDataSchema_def)

lemma async_accepts:
  assumes "s402ProofSchema pr"
    and "validationErrors env pr p rcpt = []"
    and "verifyEIP712Signature (env_ethers env) (payment pr) (authSig pr)
           (buildEIP712Domain (env_config env))"
  shows "validateSubmittedProofAsync env pr p rcpt =
           ([Call (GetTransactionReceipt (txHashOf pr))],
            Inr \<lparr>ctx_owner = owner (payment pr),
                     ctx_value = int (digitsValue (amount (payment pr))),
                     ctx_payment = payment pr, ctx_txHash = txHash pr,
                     verifiedAsync = Some True,
                     verificationPromise =
                       Some (verifyTransactionSettlement (env_config env) (env_chain env)
                               (txHashOf pr) (payment pr))\<rparr>)"
  using assms schema_amount [OF assms(1)]
    settlement_first_effect [of "env_config env" "env_chain env" "txHashOf pr" "payment pr"]
  by (simp add: validateSubmittedProofAsync_def Let_def BigInt_def emit_def)

lemma backgroundVerification_settled:
  "\<exists>r. snd (verifyTransactionSettlement cfg ch h pay) = Inr r \<and>
       backgroundVerification (Some (verifyTransactionSettlement cfg ch h pay)) =
         afterFirstAwait (fst (verifyTransactionSettlement cfg ch h pay)) @
         [if verified r
          then Logged LInfo ''Background blockchain verification completed successfully''
          else Logged LWarn ''Background blockchain verification failed (API access already granted)'']"
proof -
  obtain r where "snd (verifyTransactionSettlement cfg ch h pay) = Inr r"
    using settlement_returns by blast
  then show ?thesis by (simp add: backgroundVerification_def)
qed

text \<open>
  Claim C8. In the asynchronous discipline, for a proof that passes the schema, the
  parameter validation (against the price the route resolved to) and the signature
  check, the request goes on to the protected handler with a context in which
  \<open>verifiedAsync\<close> is true and \<open>verificationPromise\<close> is the settlement verification
  that was started. This holds for every chain: before the handler runs the middleware
  has written its two log entries and, between them, the started verification has
  invoked \<open>getTransactionReceipt\<close> on the proof's transaction hash, which is as far
  as it runs before its first \<open>await\<close>; no answer of the provider has been used. The
  verification always settles with a result, and all that follows is the rest of the
  verification's own effects and then one log entry: at level info when the result is
  verified, at level warn when it is not. The outcome, the grant, is the same in both
  cases.
\<close>

theorem async_grants_before_settlement:
  assumes "body_s402Proof req = Some pr" and "s402ProofSchema pr"
    and "getPriceForRoute (env_config env) routeKey = Inr price"
    and "validationErrors env pr price (getRecipientForRoute (env_config env) routeKey) = []"
    and "verifyEIP712Signature (env_ethers env) (payment pr) (authSig pr)
           (buildEIP712Domain (env_config env))"
    and "settlement = verifyTransactionSettlement (env_config env) ch (txHashOf pr) (payment pr)"
  shows "outcome (requireS402Async (env\<lparr>env_chain := ch\<rparr>) routeKey req) =
           Next (Some \<lparr>ctx_owner = owner (payment pr),
                       ctx_value = int (digitsValue (amount (payment pr))),
                       ctx_payment = payment pr, ctx_txHash = txHash pr,
                       verifiedAsync = Some True,
                       verificationPromise = Some settlement\<rparr>) \<and>
         serve (env_config env) (outcome (requireS402Async (env\<lparr>env_chain := ch\<rparr>) routeKey req)) =
           HandlerInvoked (Some \<lparr>ctx_owner = owner (payment pr),
                       ctx_value = int (digitsValue (amount (payment pr))),
                       ctx_payment = payment pr, ctx_txHash = txHash pr,
                       verifiedAsync = Some True,
                       verificationPromise = Some settlement\<rparr>) \<and>
         foreground (requireS402Async (env\<lparr>env_chain := ch\<rparr>) routeKey req) =
           [Logged LInfo ''S402 proof submitted - beginning async validation'',
            Call (GetTransactionReceipt (txHashOf pr)),
            Logged LInfo ''Payment ACCEPTED (signature verified, blockchain verification in background) - granting API access''] \<and>
         (\<exists>r es. snd settlement = Inr r \<and>
              fst settlement = Call (GetTransactionReceipt (txHashOf pr)) # es \<and>
              background (requireS402Async (env\<lparr>env_chain := ch\<rparr>) routeKey req) =
                es @
                [if verified r
                 then Logged LInfo ''Background blockchain verification completed successfully''
                 else Logged LWarn ''Background blockchain verification failed (API access already granted)''])"
proof -
  let ?env = "env\<lparr>env_chain := ch\<rparr>"
  have p: "getPriceForRoute (env_config ?env) routeKey = Inr price"
    using assms(3) by simp
  have e: "validationErrors ?env pr price (getRecipientForRoute (env_config ?env) routeKey) = []"
    using assms(4) by (simp add: validationErrors_def)
  have s: "verifyEIP712Signature (env_ethers ?env) (payment pr) (authSig pr)
           (buildEIP712Domain (env_config ?env))"
    using assms(5) by simp
  have run: "requireS402Async ?env routeKey req =
      \<lparr>outcome = Next (Some \<lparr>ctx_owner = owner (payment pr),
                       ctx_value = int (digitsValue (amount (payment pr))),
                       ctx_payment = payment pr, ctx_txHash = txHash pr,
                       verifiedAsync = Some True,
                       verificationPromise = Some settlement\<rparr>),
       foreground =
         [Logged LInfo ''S402 proof submitted - beginning async validation'',
          Call (GetTransactionReceipt (txHashOf pr)),
          Logged LInfo ''Payment ACCEPTED (signature verified, blockchain verification in background) - granting API access''],
       background = backgroundVerification (Some settlement)\<rparr>"
    using assms(1,2,6) p async_accepts [OF assms(2) e s]
    by (simp add: requireS402Async_def parse_ok Let_def emit_def)
  obtain r where r: "snd settlement = Inr r"
    "backgroundVerification (Some settlement) =
       afterFirstAwait (fst settlement) @
       [if verified r
        then Logged LInfo ''Background blockchain verification completed successfully''
        else Logged LWarn ''Background blockchain verification failed (API access already granted)'']"
    using backgroundVerification_settled [of "env_config env" ch "txHashOf pr" "payment pr"]
    unfolding assms(6) by blast
  have first: "fst settlement =
      Call (GetTransactionReceipt (txHashOf pr)) # afterFirstAwait (fst settlement)"
    unfolding assms(6) by (rule settlement_first_effect(2))
  have "\<exists>r es. snd settlement = Inr r \<and>
              fst settlement = Call (GetTransactionReceipt (txHashOf pr)) # es \<and>
              background (requireS402Async ?env routeKey req) =
                es @
                [if verified r
                 then Logged LInfo ''Background blockchain verification completed successfully''
                 else Logged LWarn ''Background blockchain verification failed (API access already granted)'']"
    using r first by (intro exI [of _ r] exI [of _ "afterFirstAwait (fst settlement)"])
      (simp add: run)
  then show ?thesis
    by (simp add: run serve_def)
qed

lemma ex_proof_fields:
  "payment ex_proof = ex_payment" "txHash ex_proof = Some ex_txHash"
  "txHashOf ex_proof = ex_txHash" "authSig ex_proof = ex_sig" "owner ex_payment = ex_owner"
  by (simp_all add: ex_proof_def txHashOf_def ex_payment_def)

text \<open>
  The instance: a valid proof whose transaction has one confirmation where two are
  required. The handler runs; the background verification fails and logs a warning.
\<close>

theorem async_grants_before_settlement_witness:
  "serve ex_cfg (outcome (requireS402Async (ex_env (ex_chain [ex_log] 100)) ''tool.example'' ex_request)) =
     HandlerInvoked (Some \<lparr>ctx_owner = ex_owner, ctx_value = 1000000000000000,
        ctx_payment = ex_payment, ctx_txHash = Some ex_txHash, verifiedAsync = Some True,
        verificationPromise =
          Some ([Call (GetTransactionReceipt ex_txHash), Call GetBlockNumber,
                 Logged LWarn ''Insufficient confirmations''],
                Inr \<lparr>verified = False, confirmations = 1,
                     error = Some ''Insufficient confirmations: 1/2''\<rparr>)\<rparr>) \<and>
   foreground (requireS402Async (ex_env (ex_chain [ex_log] 100)) ''tool.example'' ex_request) =
     [Logged LInfo ''S402 proof submitted - beginning async validation'',
      Call (GetTransactionReceipt ex_txHash),
      Logged LInfo ''Payment ACCEPTED (signature verified, blockchain verification in background) - granting API access''] \<and>
   background (requireS402Async (ex_env (ex_chain [ex_log] 100)) ''tool.example'' ex_request) =
     [Call GetBlockNumber,
      Logged LWarn ''Insufficient confirmations'',
      Logged LWarn ''Background blockchain verification failed (API access already granted)'']"
proof -
  have schema: "s402ProofSchema ex_proof"
    by (simp add: s402ProofSchema_def paymentDataSchema_def signatureSchema_def addressSchema_def
          hex32Schema_def txHashSchema_def matchesHex_def isHexDigit_def isDecimalString_def
          isDigit_def ex_proof_def ex_payment_def ex_sig_def ex_owner_def ex_recipient_def
          ex_nonce_def ex_txHash_def)
  have errs: "validationErrors (ex_env (ex_chain [ex_log] 100)) ex_proof
                1000000000000000
                (getRecipientForRoute ex_cfg ''tool.example'') = []"
    by (simp add: validationErrors_def Let_def ex_price_rendered truthy_def)
       (simp add: ex_env_def ex_proof_def ex_payment_def ex_cfg_def getChainId_def
          getRecipientForRoute_def ex_txHash_def)
  have sig: "verifyEIP712Signature ex_ethers ex_payment ex_sig (buildEIP712Domain ex_cfg)"
    by (simp add: verifyEIP712Signature_def ex_ethers_def ex_owner_lower ex_proof_fields)
  have settle: "verifyTransactionSettlement ex_cfg (ex_chain [ex_log] 100) ex_txHash ex_payment =
     ([Call (GetTransactionReceipt ex_txHash), Call GetBlockNumber,
       Logged LWarn ''Insufficient confirmations''],
      Inr \<lparr>verified = False, confirmations = 1,
           error = Some ''Insufficient confirmations: 1/2''\<rparr>)"
    using try_insufficient
      [of "ex_chain [ex_log] 100" ex_txHash "ex_receipt [ex_log]" 100 ex_cfg ex_payment]
    by (simp add: verifyTransactionSettlement_def ex_chain_def ex_receipt_def ex_cfg_def
          getMinimumConfirmations_def intToString_def natToString_lt10 digitChar_def failed_def)
  have val: "int (digitsValue (amount ex_payment)) = 1000000000000000"
    using ex_amount by (simp add: BigInt_def split: if_splits)
  show ?thesis
    using async_grants_before_settlement
      [where req = ex_request and pr = ex_proof and env = "ex_env (ex_chain [ex_log] 100)"
         and routeKey = "''tool.example''" and ch = "ex_chain [ex_log] 100"
         and price = 1000000000000000
         and settlement = "verifyTransactionSettlement ex_cfg (ex_chain [ex_log] 100) ex_txHash ex_payment"]
      schema errs sig val ex_price
    by (simp add: ex_request_def ex_env_def settle ex_proof_fields serve_def)
qed


section \<open>The synchronous discipline\<close>

lemma sync_settlement_failure:
  assumes "body_s402Proof req = Some pr" and "s402ProofSchema pr"
    and "getPriceForRoute (env_config env) routeKey = Inr price"
    and "validationErrors env pr price (getRecipientForRoute (env_config env) routeKey) = []"
    and "verifyEIP712Signature (env_ethers env) (payment pr) (authSig pr)
           (buildEIP712Domain (env_config env))"
    and "snd (verifyTransactionSettlement (env_config env) (env_chain env) (txHashOf pr)
           (payment pr)) = Inr r"
    and "\<not> verified r"
  shows "outcome (requireS402 env routeKey req) =
           catchS402 (new_Error (''Transaction verification failed: '' @ errorText r))"
  using assms
  by (simp add: requireS402_def parse_ok validateSubmittedProof_def emit_def Let_def)

lemma not_includes_fresh: "x \<notin> set s \<Longrightarrow> \<not> String_includes s (x # t)"
  by (induction s) auto

lemma natToString_notin: "\<not> isDigit x \<Longrightarrow> x \<notin> set (natToString n)"
  using natToString_digits [of n] by (auto simp: list_all_iff)

lemma intToString_notin: "\<not> isDigit x \<Longrightarrow> x \<noteq> CHR ''-'' \<Longrightarrow> x \<notin> set (intToString i)"
  by (simp add: intToString_def natToString_notin)

lemma count_chars:
  "CHR ''v'' \<notin> set (intToString c @ ''/'' @ intToString m)"
  "CHR ''n'' \<notin> set (intToString c @ ''/'' @ intToString m)"
  "CHR ''I'' \<notin> set (intToString c @ ''/'' @ intToString m)"
  by (simp_all add: intToString_notin isDigit_def)

lemma insufficient_not_matched:
  "\<not> isVerificationMessage
       (''Transaction verification failed: Insufficient confirmations: '' @ intToString c @
        ''/'' @ intToString m)"
proof -
  have tail: "\<not> String_includes (intToString c @ ''/'' @ intToString m) ''validation failed''"
    "\<not> String_includes (intToString c @ ''/'' @ intToString m) ''not settled''"
    "\<not> String_includes (intToString c @ ''/'' @ intToString m) ''Invalid signature''"
    using count_chars [of c m] by (simp_all add: not_includes_fresh del: set_append)
  show ?thesis
    using tail by (simp add: isVerificationMessage_def)
qed

lemma literal_errors_not_matched:
  "\<forall>m\<in>set [''Transaction not found'', ''Transaction failed'', ''Wrong contract called'',
              ''Transaction data unavailable'', ''Unable to parse transaction calldata'',
              ''Unexpected function call'', ''Missing payment arguments'',
              ''Payment parameters mismatch'', ''Verification failed''].
     \<not> isVerificationMessage (''Transaction verification failed: '' @ m)"
  by (simp add: isVerificationMessage_def)

lemma viaCalldata_error_cases:
  assumes "snd (verifyViaCalldata ch h pay c) = Inr r" and "\<not> verified r"
  shows "errorText r \<in> set [''Transaction not found'', ''Transaction failed'',
              ''Wrong contract called'',
              ''Transaction data unavailable'', ''Unable to parse transaction calldata'',
              ''Unexpected function call'', ''Missing payment arguments'',
              ''Payment parameters mismatch'', ''Verification failed'']"
  using assms unfolding viaCalldata_verified
  by (auto simp: failed_def errorText_def split: sum.splits option.splits if_splits)

lemma try_error_cases:
  assumes "snd (verifyTransactionSettlement_try cfg ch h pay) = Inr r" and "\<not> verified r"
  shows "errorText r \<in> set [''Transaction not found'', ''Transaction failed'',
              ''Wrong contract called'',
              ''Transaction data unavailable'', ''Unable to parse transaction calldata'',
              ''Unexpected function call'', ''Missing payment arguments'',
              ''Payment parameters mismatch'', ''Verification failed''] \<or>
         (\<exists>c m. errorText r = ''Insufficient confirmations: '' @ intToString c @ ''/'' @
                  intToString m)"
proof (cases "getTransactionReceipt ch h")
  case (Inl e)
  with assms show ?thesis by (simp add: verifyTransactionSettlement_try_def emit_def)
next
  case (Inr ro)
  show ?thesis
  proof (cases ro)
    case None
    with Inr assms show ?thesis
      by (auto simp: verifyTransactionSettlement_try_def emit_def failed_def errorText_def)
  next
    case (Some receipt)
    show ?thesis
    proof (cases "getBlockNumber ch")
      case (Inl e)
      with Inr Some assms show ?thesis
        by (simp add: verifyTransactionSettlement_try_def emit_def)
    next
      case b: (Inr currentBlock)
      let ?c = "currentBlock - blockNumber receipt + 1"
      consider (few) "?c < getMinimumConfirmations cfg"
        | (status) "\<not> ?c < getMinimumConfirmations cfg" "status receipt \<noteq> Some 1"
        | (target) "\<not> ?c < getMinimumConfirmations cfg" "status receipt = Some 1"
            "map_option toLowerCase (receipt_to receipt) \<noteq> Some (toLowerCase S402_FACILITATOR)"
        | (scan) "\<not> ?c < getMinimumConfirmations cfg" "status receipt = Some 1"
            "map_option toLowerCase (receipt_to receipt) = Some (toLowerCase S402_FACILITATOR)"
        by blast
      then show ?thesis
      proof cases
        case few
        then have "errorText r = ''Insufficient confirmations: '' @ intToString ?c @ ''/'' @
                  intToString (getMinimumConfirmations cfg)"
          using assms(1) try_insufficient [OF _ b few, of h pay] Inr Some
          by (auto simp: failed_def errorText_def)
        then show ?thesis by blast
      next
        case status
        with Inr Some b assms show ?thesis
          by (auto simp: verifyTransactionSettlement_try_def emit_def failed_def errorText_def
                Let_def)
      next
        case target
        with Inr Some b assms show ?thesis
          by (auto simp: verifyTransactionSettlement_try_def emit_def failed_def errorText_def
                Let_def)
      next
        case scan
        have t: "verifyTransactionSettlement_try cfg ch h pay =
           emit [Call (GetTransactionReceipt h), Call GetBlockNumber]
             (if scanLogs ch pay (logs receipt)
              then ([Logged LInfo ''Transaction verified successfully via PaymentSettled event''],
                    Inr \<lparr>verified = True, confirmations = ?c, error = None\<rparr>)
              else verifyViaCalldata ch h pay ?c)"
          using try_after_checks [OF _ b scan, of h pay] Inr Some by simp
        show ?thesis
        proof (cases "scanLogs ch pay (logs receipt)")
          case True
          with t assms show ?thesis by (auto simp: emit_def)
        next
          case False
          with t assms have "snd (verifyViaCalldata ch h pay ?c) = Inr r"
            by (simp add: emit_def)
          from viaCalldata_error_cases [OF this assms(2)] show ?thesis by blast
        qed
      qed
    qed
  qed
qed

lemma settlement_error_not_matched:
  assumes "snd (verifyTransactionSettlement cfg ch h pay) = Inr r" and "\<not> verified r"
  shows "\<not> isVerificationMessage (''Transaction verification failed: '' @ errorText r)"
proof -
  have cases: "errorText r \<in> set [''Transaction not found'', ''Transaction failed'',
              ''Wrong contract called'',
              ''Transaction data unavailable'', ''Unable to parse transaction calldata'',
              ''Unexpected function call'', ''Missing payment arguments'',
              ''Payment parameters mismatch'', ''Verification failed''] \<or>
         (\<exists>c m. errorText r = ''Insufficient confirmations: '' @ intToString c @ ''/'' @
                  intToString m)"
  proof (cases "snd (verifyTransactionSettlement_try cfg ch h pay)")
    case (Inl e)
    with assms(1) have "errorText r = ''Verification failed''"
      by (auto simp: verifyTransactionSettlement_def failed_def errorText_def)
    then show ?thesis by simp
  next
    case (Inr r')
    with assms(1) have "r' = r" by (simp add: verifyTransactionSettlement_def)
    with Inr try_error_cases [of cfg ch h pay r] assms(2) show ?thesis by simp
  qed
  then show ?thesis
  proof
    assume "errorText r \<in> set [''Transaction not found'', ''Transaction failed'',
              ''Wrong contract called'',
              ''Transaction data unavailable'', ''Unable to parse transaction calldata'',
              ''Unexpected function call'', ''Missing payment arguments'',
              ''Payment parameters mismatch'', ''Verification failed'']"
    with literal_errors_not_matched show ?thesis by blast
  next
    assume "\<exists>c m. errorText r = ''Insufficient confirmations: '' @ intToString c @ ''/'' @
                  intToString m"
    then obtain c m where "errorText r = ''Insufficient confirmations: '' @ intToString c @
                  ''/'' @ intToString m" by blast
    with insufficient_not_matched [of c m] show ?thesis by simp
  qed
qed

lemma sync_settlement_failure_500:
  assumes "body_s402Proof req = Some pr" and "s402ProofSchema pr"
    and "getPriceForRoute (env_config env) routeKey = Inr price"
    and "validationErrors env pr price (getRecipientForRoute (env_config env) routeKey) = []"
    and "verifyEIP712Signature (env_ethers env) (payment pr) (authSig pr)
           (buildEIP712Domain (env_config env))"
    and "snd (verifyTransactionSettlement (env_config env) (env_chain env) (txHashOf pr)
           (payment pr)) = Inr r"
    and "\<not> verified r"
  shows "outcome (requireS402 env routeKey req) =
           NextError (new_Error (''Transaction verification failed: '' @ errorText r))"
    and "serve cfg (outcome (requireS402 env routeKey req)) =
           Sent 500 (ErrorBody ''INTERNAL_ERROR'' ''An internal server error occurred''
             (if isDev cfg
              then DetailsStack (new_Error (''Transaction verification failed: '' @ errorText r))
              else NoDetails))"
proof -
  have "\<not> isVerificationMessage (''Transaction verification failed: '' @ errorText r)"
    by (rule settlement_error_not_matched [OF assms(6,7)])
  then have c: "catchS402 (new_Error (''Transaction verification failed: '' @ errorText r)) =
      NextError (new_Error (''Transaction verification failed: '' @ errorText r))"
    by (simp add: catchS402_def new_Error_def)
  show o: "outcome (requireS402 env routeKey req) =
           NextError (new_Error (''Transaction verification failed: '' @ errorText r))"
    using sync_settlement_failure [OF assms] c by simp
  show "serve cfg (outcome (requireS402 env routeKey req)) =
           Sent 500 (ErrorBody ''INTERNAL_ERROR'' ''An internal server error occurred''
             (if isDev cfg
              then DetailsStack (new_Error (''Transaction verification failed: '' @ errorText r))
              else NoDetails))"
    unfolding o by (simp add: serve_def errorHandler_def new_Error_def)
qed

lemma ex_proof_schema: "s402ProofSchema ex_proof"
  by (simp add: s402ProofSchema_def paymentDataSchema_def signatureSchema_def addressSchema_def
        hex32Schema_def txHashSchema_def matchesHex_def isHexDigit_def isDecimalString_def
        isDigit_def ex_proof_def ex_payment_def ex_sig_def ex_owner_def ex_recipient_def
        ex_nonce_def ex_txHash_def)

lemma ex_proof_passes:
  "validationErrors (ex_env ch) ex_proof 1000000000000000
     (getRecipientForRoute ex_cfg ''tool.example'') = []"
  by (simp add: validationErrors_def Let_def ex_price_rendered truthy_def)
     (simp add: ex_env_def ex_proof_def ex_payment_def ex_cfg_def getChainId_def
        getRecipientForRoute_def ex_txHash_def)

lemma ex_signature_valid:
  "verifyEIP712Signature ex_ethers ex_payment ex_sig (buildEIP712Domain ex_cfg)"
  by (simp add: verifyEIP712Signature_def ex_ethers_def ex_owner_lower ex_proof_fields)

lemma ex_settlement_pending:
  "verifyTransactionSettlement ex_cfg (ex_chain [ex_log] 100) ex_txHash ex_payment =
     ([Call (GetTransactionReceipt ex_txHash), Call GetBlockNumber,
       Logged LWarn ''Insufficient confirmations''],
      Inr \<lparr>verified = False, confirmations = 1,
           error = Some ''Insufficient confirmations: 1/2''\<rparr>)"
  using try_insufficient
    [of "ex_chain [ex_log] 100" ex_txHash "ex_receipt [ex_log]" 100 ex_cfg ex_payment]
  by (simp add: verifyTransactionSettlement_def ex_chain_def ex_receipt_def ex_cfg_def
        getMinimumConfirmations_def intToString_def natToString_lt10 digitChar_def failed_def)

text \<open>
  Claim C1 says that in the synchronous discipline a proof that passes the schema, the
  parameter validation and the signature check, and whose settlement verification
  fails, is answered with 403 and the verifier's reason, the handler not being
  invoked. The handler is indeed not invoked, but the answer is not 403: the error
  \<open>validateSubmittedProof\<close> throws reads \<open>Transaction verification failed: ...\<close>,
  which contains none of the three phrases (\<open>validation failed\<close>, \<open>not settled\<close>,
  \<open>Invalid signature\<close>) the middleware's \<open>catch\<close> answers 403 for, so the error goes
  to \<open>next(error)\<close> and the error handler answers 500 with a generic message
  (\<open>sync_settlement_failure_500\<close>, for every failure of the verifier). Here: a valid
  proof whose transaction has one confirmation where two are required.
\<close>

theorem sync_insufficient_confirmations_served:
  "outcome (requireS402 (ex_env (ex_chain [ex_log] 100)) ''tool.example'' ex_request) =
     NextError (new_Error ''Transaction verification failed: Insufficient confirmations: 1/2'') \<and>
   serve ex_cfg (outcome (requireS402 (ex_env (ex_chain [ex_log] 100)) ''tool.example'' ex_request)) =
     Sent 500 (ErrorBody ''INTERNAL_ERROR'' ''An internal server error occurred'' NoDetails)"
  using sync_settlement_failure_500 (1)
    [where req = ex_request and pr = ex_proof and env = "ex_env (ex_chain [ex_log] 100)"
       and routeKey = "''tool.example''" and price = 1000000000000000
       and r = "\<lparr>verified = False, confirmations = 1,
                  error = Some ''Insufficient confirmations: 1/2''\<rparr>"]
    sync_settlement_failure_500 (2)
    [where req = ex_request and pr = ex_proof and env = "ex_env (ex_chain [ex_log] 100)"
       and routeKey = "''tool.example''" and cfg = ex_cfg and price = 1000000000000000
       and r = "\<lparr>verified = False, confirmations = 1,
                  error = Some ''Insufficient confirmations: 1/2''\<rparr>"]
    ex_proof_schema ex_proof_passes [of "ex_chain [ex_log] 100"] ex_signature_valid
    ex_settlement_pending ex_price
  by (simp add: ex_request_def ex_env_def ex_proof_fields errorText_def)
     (simp add: ex_cfg_def)


section \<open>Signature verification\<close>

lemma ex_zero_not_owner: "toLowerCase ZERO_ADDRESS \<noteq> toLowerCase ex_owner"
  by (simp add: ZERO_ADDRESS_def ex_owner_def toLowerCase_def lowerChar_def)

text \<open>
  Claim C2 says that for every payment, signature and domain the verifier returns true
  exactly when the address recovered from the typed-data encoding of the payment with
  \<open>spender\<close> forced to the verifying contract's address is the owner. Read with the
  verifying contract of the domain that is passed, this fails: the code sets
  \<open>spender\<close> to the constant \<open>S402_FACILITATOR\<close>, whatever the domain. For a domain
  with another verifying contract and the owner's signature of the authorization for
  that contract, the claim's verifier accepts and the code rejects.
\<close>

theorem spender_is_domain_contract_counterexample:
  "spec_verifyEIP712Signature ex_ethers_other ex_payment ex_sig ex_domain_other \<and>
   \<not> verifyEIP712Signature ex_ethers_other ex_payment ex_sig ex_domain_other"
  by (simp add: spec_verifyEIP712Signature_def verifyEIP712Signature_def ex_ethers_other_def
        ex_owner_lower ex_zero_not_owner ex_proof_fields typedValue_def spec_typedValue_def
        ex_domain_other_def S402_FACILITATOR_def)

text \<open>
  Claim C2 as amended. For every ethers library, payment, signature and domain,
  \<open>verifyEIP712Signature\<close> returns true if and only if \<open>Signature.from\<close> accepts the
  signature and the address recovered under the domain from the typed-data value of
  the payment, with \<open>spender\<close> set to the constant \<open>S402_FACILITATOR\<close> and never
  taken from the caller, equals the owner in lower case. \<open>S402_FACILITATOR\<close> is the
  verifying contract of the domain the server builds, and on that domain the code and
  the claim's reading agree. When \<open>Signature.from\<close> or the recovery throws, the result
  is false.
\<close>

theorem signature_verification:
  "(verifyEIP712Signature lib pay sg dm \<longleftrightarrow>
      (\<exists>signature recovered.
         Signature_from lib sg = Inr signature \<and>
         verifyTypedData lib dm PAYMENT_AUTHORIZATION_TYPES
           \<lparr>pa_owner = owner pay, pa_spender = S402_FACILITATOR, pa_value = amount pay,
            pa_deadline = deadline pay, pa_recipient = recipient pay, pa_nonce = nonce pay\<rparr>
           signature = Inr recovered \<and>
         toLowerCase recovered = toLowerCase (owner pay))) \<and>
   verifyingContract (buildEIP712Domain cfg) = S402_FACILITATOR \<and>
   verifyEIP712Signature lib pay sg (buildEIP712Domain cfg) =
     spec_verifyEIP712Signature lib pay sg (buildEIP712Domain cfg) \<and>
   ((\<exists>e. Signature_from lib sg = Inl e) \<longrightarrow> \<not> verifyEIP712Signature lib pay sg dm) \<and>
   (\<forall>signature. Signature_from lib sg = Inr signature \<and>
      (\<exists>e. verifyTypedData lib dm PAYMENT_AUTHORIZATION_TYPES (typedValue pay) signature = Inl e) \<longrightarrow>
      \<not> verifyEIP712Signature lib pay sg dm)"
  by (auto simp: verifyEIP712Signature_def spec_verifyEIP712Signature_def typedValue_def
        spec_typedValue_def buildEIP712Domain_def split: sum.splits)

text \<open>
  The instances: the owner's signature of the payment verifies; the same signature
  with the payment's value changed does not; a library that throws on the signature
  gives false.
\<close>

theorem signature_verification_witness:
  "verifyEIP712Signature ex_ethers ex_payment ex_sig (buildEIP712Domain ex_cfg) \<and>
   \<not> verifyEIP712Signature ex_ethers (ex_payment\<lparr>amount := ''1''\<rparr>) ex_sig (buildEIP712Domain ex_cfg) \<and>
   \<not> verifyEIP712Signature ex_ethers_malformed ex_payment ex_sig (buildEIP712Domain ex_cfg)"
proof -
  have a: "verifyEIP712Signature ex_ethers ex_payment ex_sig (buildEIP712Domain ex_cfg)"
    using signature_verification
      [where lib = ex_ethers and pay = ex_payment and sg = ex_sig
         and dm = "buildEIP712Domain ex_cfg" and cfg = ex_cfg, THEN conjunct1]
      ex_owner_lower
    by (simp add: ex_ethers_def typedValue_def ex_proof_fields)
  have b: "\<not> verifyEIP712Signature ex_ethers (ex_payment\<lparr>amount := ''1''\<rparr>) ex_sig
              (buildEIP712Domain ex_cfg)"
    using signature_verification
      [where lib = ex_ethers and pay = "ex_payment\<lparr>amount := ''1''\<rparr>" and sg = ex_sig
         and dm = "buildEIP712Domain ex_cfg" and cfg = ex_cfg, THEN conjunct1]
      ex_zero_not_owner
    by (simp add: ex_ethers_def typedValue_def ex_payment_def)
  have c: "\<not> verifyEIP712Signature ex_ethers_malformed ex_payment ex_sig (buildEIP712Domain ex_cfg)"
    using signature_verification
      [where lib = ex_ethers_malformed and pay = ex_payment and sg = ex_sig
         and dm = "buildEIP712Domain ex_cfg" and cfg = ex_cfg]
    by (simp add: ex_ethers_malformed_def)
  from a b c show ?thesis by simp
qed


end
